theory Spec2Isabelle
  imports Complex_Main
begin

section \<open>Liquidity provision ABCI application: rounds and transition table\<close>

text \<open>
  A shallow embedding of \<^verbatim>\<open>packages/valory/skills/liquidity_provision/rounds.py\<close>.
  The classes of the file are embedded as follows: the enumeration \<^verbatim>\<open>Event\<close> as a
  datatype, the round classes as the constructors of \<open>AppState\<close> (the alias the file
  uses for a round class), round instances as records holding the attributes that
  \<^verbatim>\<open>end_block\<close> reads, the period state as a record around its key-value store, and the
  class attributes of \<^verbatim>\<open>LiquidityRebalancingAbciApp\<close> as association lists in the order of
  the dictionary literals.
\<close>

subsection \<open>Events and round classes\<close>

datatype Event =
    DONE
  | DONE_ENTER
  | DONE_EXIT
  | DONE_SWAP_BACK
  | EXIT
  | ROUND_TIMEOUT
  | NO_MAJORITY
  | RESET_TIMEOUT

text \<open>
  The concrete round classes of the file. \<open>TransactionHashBaseRound\<close> is a round class
  with a \<^verbatim>\<open>round_id\<close> of its own that the application's tables never mention.
\<close>

datatype AppState =
    TransactionHashBaseRound
  | StrategyEvaluationRound
  | SleepRound
  | EnterPoolTransactionHashRound
  | FinishedEnterPoolTransactionHashRound
  | ExitPoolTransactionHashRound
  | FinishedExitPoolTransactionHashRound
  | SwapBackTransactionHashRound
  | FinishedSwapBackTransactionHashRound

fun round_id :: "AppState \<Rightarrow> string" where
  "round_id TransactionHashBaseRound = ''tx_hash''"
| "round_id StrategyEvaluationRound = ''strategy_evaluation''"
| "round_id SleepRound = ''sleep''"
| "round_id EnterPoolTransactionHashRound = ''enter_pool_tx_hash''"
| "round_id FinishedEnterPoolTransactionHashRound = ''finished_enter_pool_hash''"
| "round_id ExitPoolTransactionHashRound = ''exit_pool_tx_hash''"
| "round_id FinishedExitPoolTransactionHashRound = ''finished_exit_pool_hash''"
| "round_id SwapBackTransactionHashRound = ''swap_back_tx_hash''"
| "round_id FinishedSwapBackTransactionHashRound = ''finished_swap_back_hash''"

subsection \<open>LiquidityRebalancingAbciApp\<close>

definition initial_round_cls :: AppState where
  "initial_round_cls = StrategyEvaluationRound"

text \<open>
  The dictionary literal \<^verbatim>\<open>transition_function\<close>, entry by entry. No key occurs twice in
  the literal or in any of its inner dictionaries, so looking a key up with \<open>map_of\<close>
  is the dictionary lookup.
\<close>

definition transition_function :: "(AppState \<times> (Event \<times> AppState) list) list" where
  "transition_function =
    [ (StrategyEvaluationRound,
        [ (DONE, SleepRound),
          (DONE_ENTER, EnterPoolTransactionHashRound),
          (DONE_EXIT, ExitPoolTransactionHashRound),
          (DONE_SWAP_BACK, SwapBackTransactionHashRound),
          (ROUND_TIMEOUT, StrategyEvaluationRound),
          (NO_MAJORITY, StrategyEvaluationRound) ]),
      (SleepRound,
        [ (DONE, StrategyEvaluationRound),
          (ROUND_TIMEOUT, StrategyEvaluationRound),
          (NO_MAJORITY, StrategyEvaluationRound) ]),
      (EnterPoolTransactionHashRound,
        [ (DONE, FinishedEnterPoolTransactionHashRound),
          (ROUND_TIMEOUT, StrategyEvaluationRound),
          (NO_MAJORITY, StrategyEvaluationRound) ]),
      (FinishedEnterPoolTransactionHashRound, []),
      (ExitPoolTransactionHashRound,
        [ (DONE, FinishedExitPoolTransactionHashRound),
          (ROUND_TIMEOUT, StrategyEvaluationRound),
          (NO_MAJORITY, StrategyEvaluationRound) ]),
      (FinishedExitPoolTransactionHashRound, []),
      (SwapBackTransactionHashRound,
        [ (DONE, FinishedSwapBackTransactionHashRound),
          (ROUND_TIMEOUT, StrategyEvaluationRound),
          (NO_MAJORITY, StrategyEvaluationRound) ]),
      (FinishedSwapBackTransactionHashRound, []) ]"

definition final_states :: "AppState set" where
  "final_states =
    { FinishedEnterPoolTransactionHashRound,
      FinishedExitPoolTransactionHashRound,
      FinishedSwapBackTransactionHashRound }"

text \<open>The timeouts are the float literals \<^verbatim>\<open>5.0\<close> and \<^verbatim>\<open>30.0\<close>, both exact.\<close>

definition event_to_timeout :: "(Event \<times> real) list" where
  "event_to_timeout = [ (EXIT, 5), (ROUND_TIMEOUT, 30) ]"

text \<open>
  Modelled from the spec: the lookup of the round-execution runtime, which is not part of
  this file. ``The FSM looks up the next Round for (current Round type, Event)''; only
  the events listed for a round are exits from it.
\<close>

definition next_round :: "AppState \<Rightarrow> Event \<Rightarrow> AppState option" where
  "next_round r e =
     (case map_of transition_function r of
        None \<Rightarrow> None
      | Some edges \<Rightarrow> map_of edges e)"

text \<open>Following a sequence of events from a round; \<open>None\<close> when an event is not listed.\<close>

fun run_events :: "AppState \<Rightarrow> Event list \<Rightarrow> AppState option" where
  "run_events r [] = Some r"
| "run_events r (e # es) =
     (case next_round r e of
        None \<Rightarrow> None
      | Some r' \<Rightarrow> run_events r' es)"

definition table_keys :: "AppState set" where
  "table_keys = set (map fst transition_function)"

subsection \<open>Values, payloads and the period state\<close>

text \<open>
  Python values as the rounds meet them: what \<^verbatim>\<open>json.loads\<close> returns and what a strategy
  payload carries. An object keeps its members in the order written; as in a Python
  dictionary, a later member replaces an earlier one with the same key.
\<close>

datatype json =
    JNull
  | JBool bool
  | JInt int
  | JString string
  | JArray "json list"
  | JObject "(string \<times> json) list"

datatype error =
    KeyNotFound
  | KeyError
  | TypeError
  | JSONDecodeError
  | NoPayloads

text \<open>
  The subscript \<^verbatim>\<open>value["key"]\<close> with a string key: a dictionary raises \<^verbatim>\<open>KeyError\<close> for
  a missing key, and every other decoded value raises \<^verbatim>\<open>TypeError\<close>.
\<close>

fun getitem :: "json \<Rightarrow> string \<Rightarrow> error + json" where
  "getitem (JObject members) k =
     (case map_of (rev members) k of
        None \<Rightarrow> Inl KeyError
      | Some v \<Rightarrow> Inr v)"
| "getitem JNull k = Inl TypeError"
| "getitem (JBool b) k = Inl TypeError"
| "getitem (JInt i) k = Inl TypeError"
| "getitem (JString s) k = Inl TypeError"
| "getitem (JArray xs) k = Inl TypeError"

text \<open>
  Modelled from the spec: the payload classes of \<^verbatim>\<open>payloads.py\<close>, which is not part of
  this file. A transaction-hash payload carries a string (the JSON text of an object
  with the fields \<^verbatim>\<open>tx_hash\<close> and \<^verbatim>\<open>tx_data\<close>) under the attribute \<^verbatim>\<open>tx_hash\<close>; a strategy
  payload carries an object with at least an \<^verbatim>\<open>action\<close> field under the attribute
  \<^verbatim>\<open>strategy\<close>. The participant who sent a payload is the key under which the round's
  collection holds it.
\<close>

datatype TransactionHashPayload = TransactionHashPayload (tx_hash: string)

datatype StrategyEvaluationPayload = StrategyEvaluationPayload (strategy: json)

text \<open>
  Modelled from the spec: the values of the enumeration \<^verbatim>\<open>StrategyType\<close> of
  \<^verbatim>\<open>payloads.py\<close>: \<^verbatim>\<open>"wait"\<close>, \<^verbatim>\<open>"enter"\<close>, \<^verbatim>\<open>"exit"\<close>, \<^verbatim>\<open>"swap_back"\<close>.
\<close>

datatype StrategyType = WAIT | ENTER | EXIT_STRATEGY | SWAP_BACK

fun StrategyType_value :: "StrategyType \<Rightarrow> string" where
  "StrategyType_value WAIT = ''wait''"
| "StrategyType_value ENTER = ''enter''"
| "StrategyType_value EXIT_STRATEGY = ''exit''"
| "StrategyType_value SWAP_BACK = ''swap_back''"

text \<open>
  A round's collection: participant to payload, in the order of arrival. It is a Python
  dictionary, so a participant occurs once.
\<close>

type_synonym 'p collection = "(string \<times> 'p) list"

text \<open>What the store of the period state holds under a key.\<close>

datatype db_value =
    Value json
  | TxHashCollection "TransactionHashPayload collection"
  | StrategyCollection "StrategyEvaluationPayload collection"

text \<open>
  Modelled from the spec: \<^verbatim>\<open>BasePeriodState\<close> and its store, of the package
  \<^verbatim>\<open>abstract_round_abci\<close>, which is not part of this file. The state holds a key-value
  store and the participant count \<^verbatim>\<open>nb_participants\<close> (an integer, at least 1 in every
  run); \<^verbatim>\<open>get_strict(key)\<close> fails with \<open>KeyNotFound\<close> when the key is absent,
  \<^verbatim>\<open>get(key, default)\<close> returns the default then, and \<^verbatim>\<open>update(**kwargs)\<close> returns a new
  snapshot with the given keys written and leaves the state it was called on as it is.
\<close>

record PeriodState =
  db :: "string \<rightharpoonup> db_value"
  nb_participants :: int

definition get_strict :: "(string \<rightharpoonup> db_value) \<Rightarrow> string \<Rightarrow> error + db_value" where
  "get_strict store key =
     (case store key of
        None \<Rightarrow> Inl KeyNotFound
      | Some v \<Rightarrow> Inr v)"

definition db_get :: "(string \<rightharpoonup> db_value) \<Rightarrow> string \<Rightarrow> db_value option \<Rightarrow> db_value option" where
  "db_get store key dflt =
     (case store key of
        None \<Rightarrow> dflt
      | Some v \<Rightarrow> Some v)"

definition update :: "PeriodState \<Rightarrow> (string \<times> db_value) list \<Rightarrow> PeriodState" where
  "update st kwargs = st\<lparr>db := fold (\<lambda>(k, v) store. store(k \<mapsto> v)) kwargs (db st)\<rparr>"

subsection \<open>PeriodState: the properties of the class\<close>

text \<open>
  Each property reads one key; \<^verbatim>\<open>cast\<close> does nothing at run time. \<open>Inl\<close> is the
  exception of the store, and \<open>None\<close> inside \<open>Inr\<close> is Python's \<^verbatim>\<open>None\<close>.
\<close>

definition most_voted_strategy :: "PeriodState \<Rightarrow> error + db_value" where
  "most_voted_strategy st = get_strict (db st) ''most_voted_strategy''"

definition most_voted_transfers :: "PeriodState \<Rightarrow> error + db_value" where
  "most_voted_transfers st = get_strict (db st) ''most_voted_transfers''"

definition participant_to_strategy :: "PeriodState \<Rightarrow> error + db_value" where
  "participant_to_strategy st = get_strict (db st) ''participant_to_strategy''"

definition participant_to_tx_hash :: "PeriodState \<Rightarrow> error + db_value" where
  "participant_to_tx_hash st = get_strict (db st) ''participant_to_tx_hash''"

definition most_voted_keeper_address :: "PeriodState \<Rightarrow> error + db_value" where
  "most_voted_keeper_address st = get_strict (db st) ''most_voted_keeper_address''"

definition safe_contract_address :: "PeriodState \<Rightarrow> error + db_value" where
  "safe_contract_address st = get_strict (db st) ''safe_contract_address''"

definition multisend_contract_address :: "PeriodState \<Rightarrow> error + db_value" where
  "multisend_contract_address st = get_strict (db st) ''multisend_contract_address''"

definition router_contract_address :: "PeriodState \<Rightarrow> error + db_value" where
  "router_contract_address st = get_strict (db st) ''router_contract_address''"

definition participant_to_signature :: "PeriodState \<Rightarrow> error + db_value" where
  "participant_to_signature st = get_strict (db st) ''participant_to_signature''"

definition most_voted_tx_hash :: "PeriodState \<Rightarrow> error + db_value" where
  "most_voted_tx_hash st = get_strict (db st) ''most_voted_tx_hash''"

definition most_voted_tx_data :: "PeriodState \<Rightarrow> error + db_value" where
  "most_voted_tx_data st = get_strict (db st) ''most_voted_tx_data''"

definition final_tx_hash :: "PeriodState \<Rightarrow> error + db_value" where
  "final_tx_hash st = get_strict (db st) ''final_tx_hash''"

definition safe_operation :: "PeriodState \<Rightarrow> error + db_value option" where
  "safe_operation st = Inr (db_get (db st) ''safe_operation'' None)"

subsection \<open>The collect-same-until-threshold protocol\<close>

text \<open>
  Modelled from the spec: the agreement rule of \<^verbatim>\<open>CollectSameUntilThresholdRound\<close>, of the
  package \<^verbatim>\<open>abstract_round_abci\<close>, which is not part of this file. The threshold is the
  smallest count above two thirds of the participants; \<^verbatim>\<open>threshold_reached\<close> holds when
  the most frequent value of the round's payload attribute has at least that count;
  \<^verbatim>\<open>most_voted_payload\<close> is that most frequent value (the first one to arrive among the
  most frequent), and there is none in an empty collection; a majority is impossible
  when the largest count plus the number of participants that have not submitted is
  below the threshold.
\<close>

definition consensus_threshold :: "int \<Rightarrow> int" where
  "consensus_threshold nb = 2 * nb div 3 + 1"

definition largest_nb_votes :: "'a list \<Rightarrow> nat" where
  "largest_nb_votes votes = Max (insert 0 (set (map (count_list votes) votes)))"

definition is_majority_possible :: "'p collection \<Rightarrow> int \<Rightarrow> bool" where
  "is_majority_possible votes_by_participant nb =
     (let votes = map snd votes_by_participant;
          nb_remaining_votes = nb - int (length votes)
      in \<not> nb_remaining_votes + int (largest_nb_votes votes) < consensus_threshold nb)"

record AbstractRound =
  period_state :: PeriodState

record 'p CollectSameUntilThresholdRound = AbstractRound +
  collection :: "'p collection"

definition payload_values :: "('p \<Rightarrow> 'a) \<Rightarrow> 'p collection \<Rightarrow> 'a list" where
  "payload_values payload_attribute c = map (\<lambda>(participant, payload). payload_attribute payload) c"

definition threshold_reached ::
  "('p \<Rightarrow> 'a) \<Rightarrow> 'p CollectSameUntilThresholdRound \<Rightarrow> bool" where
  "threshold_reached payload_attribute r =
     (consensus_threshold (nb_participants (period_state r))
        \<le> int (largest_nb_votes (payload_values payload_attribute (collection r))))"

definition most_voted_payload ::
  "('p \<Rightarrow> 'a) \<Rightarrow> 'p CollectSameUntilThresholdRound \<Rightarrow> error + 'a" where
  "most_voted_payload payload_attribute r =
     (let votes = payload_values payload_attribute (collection r)
      in case find (\<lambda>v. count_list votes v = largest_nb_votes votes) votes of
           None \<Rightarrow> Inl NoPayloads
         | Some v \<Rightarrow> Inr v)"

subsection \<open>LiquidityProvisionAbstractRound\<close>

definition return_no_majority_event :: "'a AbstractRound_scheme \<Rightarrow> PeriodState \<times> Event" where
  "return_no_majority_event r = (period_state r, NO_MAJORITY)"

subsection \<open>TransactionHashBaseRound and its three subclasses\<close>

text \<open>
  \<^verbatim>\<open>end_block\<close> returns \<open>Inr None\<close> for Python's \<^verbatim>\<open>None\<close>, \<open>Inr (Some (state, event))\<close>
  for a pair, and \<open>Inl\<close> for an exception. The decoder \<^verbatim>\<open>json.loads\<close> belongs to Python's
  standard library and is the parameter \<open>loads\<close>. The keyword arguments of \<^verbatim>\<open>update\<close> are evaluated
  from left to right, so a missing \<^verbatim>\<open>tx_hash\<close> is met before a missing \<^verbatim>\<open>tx_data\<close>.
\<close>

definition TransactionHashBaseRound_end_block ::
  "(string \<Rightarrow> error + json) \<Rightarrow> TransactionHashPayload CollectSameUntilThresholdRound
     \<Rightarrow> error + (PeriodState \<times> Event) option" where
  "TransactionHashBaseRound_end_block loads r =
     (if threshold_reached tx_hash r then
        (case most_voted_payload tx_hash r of
           Inl e \<Rightarrow> Inl e
         | Inr payload \<Rightarrow>
        (case loads payload of
           Inl e \<Rightarrow> Inl e
         | Inr dict \<Rightarrow>
        (case getitem dict ''tx_hash'' of
           Inl e \<Rightarrow> Inl e
         | Inr h \<Rightarrow>
        (case getitem dict ''tx_data'' of
           Inl e \<Rightarrow> Inl e
         | Inr d \<Rightarrow>
             Inr (Some (update (period_state r)
                          [ (''participant_to_tx_hash'', TxHashCollection (collection r)),
                            (''most_voted_tx_hash'', Value h),
                            (''most_voted_tx_data'', Value d) ],
                        DONE))))))
      else if \<not> is_majority_possible (collection r) (nb_participants (period_state r)) then
        Inr (Some (return_no_majority_event r))
      else Inr None)"

text \<open>The three subclasses set a \<^verbatim>\<open>round_id\<close> and inherit \<^verbatim>\<open>end_block\<close>.\<close>

definition EnterPoolTransactionHashRound_end_block ::
  "(string \<Rightarrow> error + json) \<Rightarrow> TransactionHashPayload CollectSameUntilThresholdRound
     \<Rightarrow> error + (PeriodState \<times> Event) option" where
  "EnterPoolTransactionHashRound_end_block = TransactionHashBaseRound_end_block"

definition ExitPoolTransactionHashRound_end_block ::
  "(string \<Rightarrow> error + json) \<Rightarrow> TransactionHashPayload CollectSameUntilThresholdRound
     \<Rightarrow> error + (PeriodState \<times> Event) option" where
  "ExitPoolTransactionHashRound_end_block = TransactionHashBaseRound_end_block"

definition SwapBackTransactionHashRound_end_block ::
  "(string \<Rightarrow> error + json) \<Rightarrow> TransactionHashPayload CollectSameUntilThresholdRound
     \<Rightarrow> error + (PeriodState \<times> Event) option" where
  "SwapBackTransactionHashRound_end_block = TransactionHashBaseRound_end_block"

subsection \<open>StrategyEvaluationRound\<close>

text \<open>
  The state is updated first; the event starts as \<^verbatim>\<open>RESET_TIMEOUT\<close> and the chain of
  comparisons of \<^verbatim>\<open>most_voted_payload["action"]\<close> overrides it. The subscript is the
  first thing the chain evaluates, so a payload without the field raises there. A
  Python value equals a string only if it is that string.
\<close>

definition StrategyEvaluationRound_end_block ::
  "StrategyEvaluationPayload CollectSameUntilThresholdRound
     \<Rightarrow> error + (PeriodState \<times> Event) option" where
  "StrategyEvaluationRound_end_block r =
     (if threshold_reached strategy r then
        (case most_voted_payload strategy r of
           Inl e \<Rightarrow> Inl e
         | Inr payload \<Rightarrow>
             let state = update (period_state r)
                           [ (''participant_to_strategy'', StrategyCollection (collection r)),
                             (''most_voted_strategy'', Value payload) ]
             in (case getitem payload ''action'' of
                   Inl e \<Rightarrow> Inl e
                 | Inr action \<Rightarrow>
                     Inr (Some (state,
                       if action = JString (StrategyType_value WAIT) then DONE
                       else if action = JString (StrategyType_value ENTER) then DONE_ENTER
                       else if action = JString (StrategyType_value EXIT_STRATEGY) then DONE_EXIT
                       else if action = JString (StrategyType_value SWAP_BACK) then DONE_SWAP_BACK
                       else RESET_TIMEOUT))))
      else if \<not> is_majority_possible (collection r) (nb_participants (period_state r)) then
        Inr (Some (return_no_majority_event r))
      else Inr None)"

subsection \<open>SleepRound\<close>

text \<open>
  \<^verbatim>\<open>check_payload\<close> and \<^verbatim>\<open>process_payload\<close> have a docstring for a body: they return
  \<^verbatim>\<open>None\<close> and leave the round as it is. \<^verbatim>\<open>end_block\<close> returns the period state with
  \<^verbatim>\<open>DONE\<close>.
\<close>

definition SleepRound_check_payload :: "AbstractRound \<Rightarrow> 'p \<Rightarrow> error + AbstractRound" where
  "SleepRound_check_payload r payload = Inr r"

definition SleepRound_process_payload :: "AbstractRound \<Rightarrow> 'p \<Rightarrow> error + AbstractRound" where
  "SleepRound_process_payload r payload = Inr r"

definition SleepRound_end_block :: "AbstractRound \<Rightarrow> error + (PeriodState \<times> Event) option" where
  "SleepRound_end_block r = Inr (Some (period_state r, DONE))"

text \<open>A sequence of submissions: each payload is checked, then processed.\<close>

fun SleepRound_submit :: "AbstractRound \<Rightarrow> 'p list \<Rightarrow> error + AbstractRound" where
  "SleepRound_submit r [] = Inr r"
| "SleepRound_submit r (payload # payloads) =
     (case SleepRound_check_payload r payload of
        Inl e \<Rightarrow> Inl e
      | Inr r1 \<Rightarrow>
     (case SleepRound_process_payload r1 payload of
        Inl e \<Rightarrow> Inl e
      | Inr r2 \<Rightarrow> SleepRound_submit r2 payloads))"

subsection \<open>A JSON decoder\<close>

text \<open>
  \<^verbatim>\<open>json.loads\<close> is a parameter of the rounds above. The decoder below is the one the
  concrete evaluations pass for it: a recursive-descent decoder for JSON texts made of
  objects, arrays, strings with the single-character escapes, integers and the three
  literals. It rejects every other text, among them floats and \<^verbatim>\<open>\u\<close> escapes, with
  \<^verbatim>\<open>JSONDecodeError\<close>. The fuel bounds the nesting of the calls; \<open>json_loads\<close> passes
  the length of the text plus one.
\<close>

definition is_ws :: "char \<Rightarrow> bool" where
  "is_ws c = (c = CHR '' '' \<or> c = CHR 0x09 \<or> c = CHR 0x0A \<or> c = CHR 0x0D)"

fun skip_ws :: "string \<Rightarrow> string" where
  "skip_ws [] = []"
| "skip_ws (c # cs) = (if is_ws c then skip_ws cs else c # cs)"

fun unescape :: "char \<Rightarrow> char option" where
  "unescape c =
     (if c = CHR 0x22 then Some (CHR 0x22)
      else if c = CHR 0x5C then Some (CHR 0x5C)
      else if c = CHR ''/'' then Some (CHR ''/'')
      else if c = CHR ''b'' then Some (CHR 0x08)
      else if c = CHR ''f'' then Some (CHR 0x0C)
      else if c = CHR ''n'' then Some (CHR 0x0A)
      else if c = CHR ''r'' then Some (CHR 0x0D)
      else if c = CHR ''t'' then Some (CHR 0x09)
      else None)"

fun scan_string :: "string \<Rightarrow> string \<Rightarrow> (string \<times> string) option" where
  "scan_string acc [] = None"
| "scan_string acc [c] = (if c = CHR 0x22 then Some (rev acc, []) else None)"
| "scan_string acc (c # d # cs) =
     (if c = CHR 0x22 then Some (rev acc, d # cs)
      else if c = CHR 0x5C then
        (case unescape d of
           None \<Rightarrow> None
         | Some u \<Rightarrow> scan_string (u # acc) cs)
      else if of_char c < (32 :: nat) then None
      else scan_string (c # acc) (d # cs))"

definition is_digit :: "char \<Rightarrow> bool" where
  "is_digit c = (48 \<le> (of_char c :: nat) \<and> (of_char c :: nat) \<le> 57)"

fun scan_digits :: "nat \<Rightarrow> string \<Rightarrow> nat \<times> string" where
  "scan_digits acc [] = (acc, [])"
| "scan_digits acc (c # cs) =
     (if is_digit c then scan_digits (10 * acc + (of_char c - 48)) cs else (acc, c # cs))"

definition scan_int :: "string \<Rightarrow> (int \<times> string) option" where
  "scan_int s =
     (let negative = (s \<noteq> [] \<and> hd s = CHR ''-'');
          ds = (if negative then tl s else s)
      in case ds of
           [] \<Rightarrow> None
         | c # cs \<Rightarrow>
             if \<not> is_digit c then None
             else if c = CHR ''0'' \<and> cs \<noteq> [] \<and> is_digit (hd cs) then None
             else
               (case scan_digits 0 ds of
                  (n, rest) \<Rightarrow>
                    if rest \<noteq> [] \<and> hd rest \<in> {CHR ''.'', CHR ''e'', CHR ''E''} then None
                    else Some (if negative then - int n else int n, rest)))"

definition scan_literal :: "string \<Rightarrow> (json \<times> string) option" where
  "scan_literal s =
     (if take 4 s = ''true'' then Some (JBool True, drop 4 s)
      else if take 5 s = ''false'' then Some (JBool False, drop 5 s)
      else if take 4 s = ''null'' then Some (JNull, drop 4 s)
      else map_option (\<lambda>(i, rest). (JInt i, rest)) (scan_int s))"

fun parse_value :: "nat \<Rightarrow> string \<Rightarrow> (json \<times> string) option"
  and parse_elements :: "nat \<Rightarrow> json list \<Rightarrow> string \<Rightarrow> (json \<times> string) option"
  and parse_members :: "nat \<Rightarrow> (string \<times> json) list \<Rightarrow> string \<Rightarrow> (json \<times> string) option"
where
  "parse_value 0 s = None"
| "parse_value (Suc fuel) s =
     (case skip_ws s of
        [] \<Rightarrow> None
      | c # cs \<Rightarrow>
          if c = CHR 0x22 then map_option (\<lambda>(str, rest). (JString str, rest)) (scan_string [] cs)
          else if c = CHR ''['' then
            (case skip_ws cs of
               [] \<Rightarrow> None
             | d # ds \<Rightarrow> if d = CHR '']'' then Some (JArray [], ds) else parse_elements fuel [] cs)
          else if c = CHR ''{'' then
            (case skip_ws cs of
               [] \<Rightarrow> None
             | d # ds \<Rightarrow> if d = CHR ''}'' then Some (JObject [], ds) else parse_members fuel [] cs)
          else scan_literal (c # cs))"
| "parse_elements 0 acc s = None"
| "parse_elements (Suc fuel) acc s =
     (case parse_value fuel s of
        None \<Rightarrow> None
      | Some (v, rest) \<Rightarrow>
          (case skip_ws rest of
             [] \<Rightarrow> None
           | c # cs \<Rightarrow>
               if c = CHR '','' then parse_elements fuel (acc @ [v]) cs
               else if c = CHR '']'' then Some (JArray (acc @ [v]), cs)
               else None))"
| "parse_members 0 acc s = None"
| "parse_members (Suc fuel) acc s =
     (case skip_ws s of
        [] \<Rightarrow> None
      | q # s1 \<Rightarrow>
          if q \<noteq> CHR 0x22 then None
          else
            (case scan_string [] s1 of
               None \<Rightarrow> None
             | Some (key, s2) \<Rightarrow>
                 (case skip_ws s2 of
                    [] \<Rightarrow> None
                  | c # s3 \<Rightarrow>
                      if c \<noteq> CHR '':'' then None
                      else
                        (case parse_value fuel s3 of
                           None \<Rightarrow> None
                         | Some (v, s4) \<Rightarrow>
                             (case skip_ws s4 of
                                [] \<Rightarrow> None
                              | d # s5 \<Rightarrow>
                                  if d = CHR '','' then parse_members fuel (acc @ [(key, v)]) s5
                                  else if d = CHR ''}'' then Some (JObject (acc @ [(key, v)]), s5)
                                  else None)))))"

definition json_loads :: "string \<Rightarrow> error + json" where
  "json_loads s =
     (case parse_value (Suc (length s)) s of
        None \<Rightarrow> Inl JSONDecodeError
      | Some (v, rest) \<Rightarrow> if skip_ws rest = [] then Inr v else Inl JSONDecodeError)"

section \<open>Properties\<close>

subsection \<open>The transition table\<close>

lemma next_round_StrategyEvaluationRound:
  "next_round StrategyEvaluationRound =
     map_of [ (DONE, SleepRound), (DONE_ENTER, EnterPoolTransactionHashRound),
              (DONE_EXIT, ExitPoolTransactionHashRound),
              (DONE_SWAP_BACK, SwapBackTransactionHashRound),
              (ROUND_TIMEOUT, StrategyEvaluationRound),
              (NO_MAJORITY, StrategyEvaluationRound) ]"
  by (rule ext) (simp add: next_round_def transition_function_def)

lemma next_round_SleepRound:
  "next_round SleepRound =
     map_of [ (DONE, StrategyEvaluationRound), (ROUND_TIMEOUT, StrategyEvaluationRound),
              (NO_MAJORITY, StrategyEvaluationRound) ]"
  by (rule ext) (simp add: next_round_def transition_function_def)

lemma next_round_EnterPool:
  "next_round EnterPoolTransactionHashRound =
     map_of [ (DONE, FinishedEnterPoolTransactionHashRound),
              (ROUND_TIMEOUT, StrategyEvaluationRound),
              (NO_MAJORITY, StrategyEvaluationRound) ]"
  by (rule ext) (simp add: next_round_def transition_function_def)

lemma next_round_ExitPool:
  "next_round ExitPoolTransactionHashRound =
     map_of [ (DONE, FinishedExitPoolTransactionHashRound),
              (ROUND_TIMEOUT, StrategyEvaluationRound),
              (NO_MAJORITY, StrategyEvaluationRound) ]"
  by (rule ext) (simp add: next_round_def transition_function_def)

lemma next_round_SwapBack:
  "next_round SwapBackTransactionHashRound =
     map_of [ (DONE, FinishedSwapBackTransactionHashRound),
              (ROUND_TIMEOUT, StrategyEvaluationRound),
              (NO_MAJORITY, StrategyEvaluationRound) ]"
  by (rule ext) (simp add: next_round_def transition_function_def)

lemma next_round_Finished:
  "next_round FinishedEnterPoolTransactionHashRound = Map.empty"
  "next_round FinishedExitPoolTransactionHashRound = Map.empty"
  "next_round FinishedSwapBackTransactionHashRound = Map.empty"
  by (rule ext, simp add: next_round_def transition_function_def)+

lemma next_round_TransactionHashBaseRound:
  "next_round TransactionHashBaseRound = Map.empty"
  by (rule ext) (simp add: next_round_def transition_function_def)

lemmas next_round_simps =
  next_round_StrategyEvaluationRound next_round_SleepRound next_round_EnterPool
  next_round_ExitPool next_round_SwapBack next_round_Finished
  next_round_TransactionHashBaseRound

lemma table_keys_eq:
  "table_keys =
     { StrategyEvaluationRound, SleepRound,
       EnterPoolTransactionHashRound, FinishedEnterPoolTransactionHashRound,
       ExitPoolTransactionHashRound, FinishedExitPoolTransactionHashRound,
       SwapBackTransactionHashRound, FinishedSwapBackTransactionHashRound }"
  by (simp add: table_keys_def transition_function_def)

text \<open>
  C2: the static transition table is exactly this. StrategyEvaluationRound goes to
  SleepRound on DONE, to the enter-pool, exit-pool and swap-back transaction-hash rounds
  on DONE_ENTER, DONE_EXIT and DONE_SWAP_BACK, and back to itself on ROUND_TIMEOUT and
  NO_MAJORITY; SleepRound goes to StrategyEvaluationRound on DONE, ROUND_TIMEOUT and
  NO_MAJORITY; each transaction-hash round goes to its own Finished round on DONE and to
  StrategyEvaluationRound on ROUND_TIMEOUT and NO_MAJORITY; no round has another exit;
  the initial round is StrategyEvaluationRound and the final rounds are the three
  Finished rounds.
\<close>

theorem transition_table_exact:
  "next_round StrategyEvaluationRound DONE = Some SleepRound
   \<and> next_round StrategyEvaluationRound DONE_ENTER = Some EnterPoolTransactionHashRound
   \<and> next_round StrategyEvaluationRound DONE_EXIT = Some ExitPoolTransactionHashRound
   \<and> next_round StrategyEvaluationRound DONE_SWAP_BACK = Some SwapBackTransactionHashRound
   \<and> next_round StrategyEvaluationRound ROUND_TIMEOUT = Some StrategyEvaluationRound
   \<and> next_round StrategyEvaluationRound NO_MAJORITY = Some StrategyEvaluationRound
   \<and> dom (next_round StrategyEvaluationRound) =
        {DONE, DONE_ENTER, DONE_EXIT, DONE_SWAP_BACK, ROUND_TIMEOUT, NO_MAJORITY}
   \<and> next_round SleepRound DONE = Some StrategyEvaluationRound
   \<and> next_round SleepRound ROUND_TIMEOUT = Some StrategyEvaluationRound
   \<and> next_round SleepRound NO_MAJORITY = Some StrategyEvaluationRound
   \<and> dom (next_round SleepRound) = {DONE, ROUND_TIMEOUT, NO_MAJORITY}
   \<and> next_round EnterPoolTransactionHashRound DONE = Some FinishedEnterPoolTransactionHashRound
   \<and> next_round EnterPoolTransactionHashRound ROUND_TIMEOUT = Some StrategyEvaluationRound
   \<and> next_round EnterPoolTransactionHashRound NO_MAJORITY = Some StrategyEvaluationRound
   \<and> dom (next_round EnterPoolTransactionHashRound) = {DONE, ROUND_TIMEOUT, NO_MAJORITY}
   \<and> next_round ExitPoolTransactionHashRound DONE = Some FinishedExitPoolTransactionHashRound
   \<and> next_round ExitPoolTransactionHashRound ROUND_TIMEOUT = Some StrategyEvaluationRound
   \<and> next_round ExitPoolTransactionHashRound NO_MAJORITY = Some StrategyEvaluationRound
   \<and> dom (next_round ExitPoolTransactionHashRound) = {DONE, ROUND_TIMEOUT, NO_MAJORITY}
   \<and> next_round SwapBackTransactionHashRound DONE = Some FinishedSwapBackTransactionHashRound
   \<and> next_round SwapBackTransactionHashRound ROUND_TIMEOUT = Some StrategyEvaluationRound
   \<and> next_round SwapBackTransactionHashRound NO_MAJORITY = Some StrategyEvaluationRound
   \<and> dom (next_round SwapBackTransactionHashRound) = {DONE, ROUND_TIMEOUT, NO_MAJORITY}
   \<and> dom (next_round FinishedEnterPoolTransactionHashRound) = {}
   \<and> dom (next_round FinishedExitPoolTransactionHashRound) = {}
   \<and> dom (next_round FinishedSwapBackTransactionHashRound) = {}
   \<and> table_keys =
        { StrategyEvaluationRound, SleepRound,
          EnterPoolTransactionHashRound, FinishedEnterPoolTransactionHashRound,
          ExitPoolTransactionHashRound, FinishedExitPoolTransactionHashRound,
          SwapBackTransactionHashRound, FinishedSwapBackTransactionHashRound }
   \<and> initial_round_cls = StrategyEvaluationRound
   \<and> final_states =
        { FinishedEnterPoolTransactionHashRound,
          FinishedExitPoolTransactionHashRound,
          FinishedSwapBackTransactionHashRound }"
  unfolding next_round_simps table_keys_eq initial_round_cls_def final_states_def
  by (simp add: dom_map_of_conv_image_fst insert_commute)

text \<open>
  C8: the event-to-timeout table has exactly two entries: EXIT with 5.0 and
  ROUND_TIMEOUT with 30.0.
\<close>

theorem event_to_timeout_exact:
  "map_of event_to_timeout EXIT = Some 5
   \<and> map_of event_to_timeout ROUND_TIMEOUT = Some 30
   \<and> dom (map_of event_to_timeout) = {EXIT, ROUND_TIMEOUT}"
  by (simp add: event_to_timeout_def dom_map_of_conv_image_fst insert_commute)

lemma next_round_in_table_keys:
  "next_round r e = Some t \<Longrightarrow> t \<in> table_keys"
  unfolding table_keys_eq
  by (cases r; cases e) (simp_all add: next_round_simps)

lemma run_events_in_table_keys:
  "r \<in> table_keys \<Longrightarrow> run_events r es = Some r' \<Longrightarrow> r' \<in> table_keys"
proof (induction es arbitrary: r)
  case Nil
  then show ?case by simp
next
  case (Cons e es)
  then obtain t where t: "next_round r e = Some t" and run: "run_events t es = Some r'"
    by (auto split: option.splits)
  from t have "t \<in> table_keys" by (rule next_round_in_table_keys)
  with run show ?case by (rule Cons.IH[rotated])
qed

text \<open>
  C9: the transition table is closed. A round with an exit is a key and every target of
  an exit is a key; the rounds with an empty dictionary of exits are exactly the three
  final rounds; every key that is not final has an exit for ROUND_TIMEOUT and one for
  NO_MAJORITY; the initial round is a key, and every sequence of listed events from it
  ends in a key.
\<close>

theorem transition_table_closed:
  "(next_round r e = Some t \<longrightarrow> r \<in> table_keys \<and> t \<in> table_keys)
   \<and> (map_of transition_function r = Some [] \<longleftrightarrow> r \<in> final_states)
   \<and> (r \<in> table_keys \<and> r \<notin> final_states \<longrightarrow>
        next_round r ROUND_TIMEOUT \<noteq> None \<and> next_round r NO_MAJORITY \<noteq> None)
   \<and> initial_round_cls \<in> table_keys
   \<and> (run_events initial_round_cls es = Some r' \<longrightarrow> r' \<in> table_keys)"
proof -
  have init: "initial_round_cls \<in> table_keys"
    by (simp add: initial_round_cls_def table_keys_eq)
  have src: "next_round r e = Some t \<Longrightarrow> r \<in> table_keys"
    unfolding table_keys_eq by (cases r) (simp_all add: next_round_simps)
  have fin: "map_of transition_function r = Some [] \<longleftrightarrow> r \<in> final_states"
    by (cases r) (simp_all add: transition_function_def final_states_def)
  have exits: "r \<in> table_keys \<and> r \<notin> final_states \<longrightarrow>
        next_round r ROUND_TIMEOUT \<noteq> None \<and> next_round r NO_MAJORITY \<noteq> None"
    unfolding table_keys_eq final_states_def
    by (cases r) (simp_all add: next_round_simps)
  show ?thesis
    using init src fin exits next_round_in_table_keys run_events_in_table_keys[OF init]
    by blast
qed

theorem transition_table_closed_witness:
  "next_round EnterPoolTransactionHashRound DONE = Some FinishedEnterPoolTransactionHashRound
   \<and> EnterPoolTransactionHashRound \<in> table_keys
   \<and> FinishedEnterPoolTransactionHashRound \<in> table_keys
   \<and> EnterPoolTransactionHashRound \<notin> final_states
   \<and> next_round EnterPoolTransactionHashRound ROUND_TIMEOUT \<noteq> None
   \<and> next_round EnterPoolTransactionHashRound NO_MAJORITY \<noteq> None
   \<and> run_events initial_round_cls [DONE_ENTER, DONE] = Some FinishedEnterPoolTransactionHashRound"
  using transition_table_closed
    [of EnterPoolTransactionHashRound DONE FinishedEnterPoolTransactionHashRound
        "[DONE_ENTER, DONE]" FinishedEnterPoolTransactionHashRound]
  by (simp add: next_round_simps initial_round_cls_def final_states_def)

subsection \<open>SleepRound\<close>

text \<open>
  C7: for every SleepRound instance and every sequence of submitted payloads, the empty
  one included, check_payload and process_payload return without failing and leave the
  round as it is, and end_block returns the round's period state, unchanged, with the
  event DONE; no quorum is asked for.
\<close>

theorem sleep_round_noop:
  "SleepRound_check_payload r payload = Inr r
   \<and> SleepRound_process_payload r payload = Inr r
   \<and> SleepRound_submit r payloads = Inr r
   \<and> SleepRound_end_block r = Inr (Some (period_state r, DONE))"
proof -
  have "SleepRound_submit r payloads = Inr r"
    by (induction payloads)
       (simp_all add: SleepRound_check_payload_def SleepRound_process_payload_def)
  then show ?thesis
    by (simp add: SleepRound_check_payload_def SleepRound_process_payload_def
        SleepRound_end_block_def)
qed

subsection \<open>PeriodState\<close>

text \<open>
  C10: when the key safe_operation is absent from the store, the property safe_operation
  returns None and does not fail; each of the other twelve properties fails when its
  own key is absent.
\<close>

theorem period_state_missing_key:
  "(db st ''safe_operation'' = None \<longrightarrow> safe_operation st = Inr None)
   \<and> (db st ''most_voted_strategy'' = None \<longrightarrow> most_voted_strategy st = Inl KeyNotFound)
   \<and> (db st ''most_voted_transfers'' = None \<longrightarrow> most_voted_transfers st = Inl KeyNotFound)
   \<and> (db st ''participant_to_strategy'' = None \<longrightarrow> participant_to_strategy st = Inl KeyNotFound)
   \<and> (db st ''participant_to_tx_hash'' = None \<longrightarrow> participant_to_tx_hash st = Inl KeyNotFound)
   \<and> (db st ''most_voted_keeper_address'' = None \<longrightarrow>
        most_voted_keeper_address st = Inl KeyNotFound)
   \<and> (db st ''safe_contract_address'' = None \<longrightarrow> safe_contract_address st = Inl KeyNotFound)
   \<and> (db st ''multisend_contract_address'' = None \<longrightarrow>
        multisend_contract_address st = Inl KeyNotFound)
   \<and> (db st ''router_contract_address'' = None \<longrightarrow>
        router_contract_address st = Inl KeyNotFound)
   \<and> (db st ''participant_to_signature'' = None \<longrightarrow>
        participant_to_signature st = Inl KeyNotFound)
   \<and> (db st ''most_voted_tx_hash'' = None \<longrightarrow> most_voted_tx_hash st = Inl KeyNotFound)
   \<and> (db st ''most_voted_tx_data'' = None \<longrightarrow> most_voted_tx_data st = Inl KeyNotFound)
   \<and> (db st ''final_tx_hash'' = None \<longrightarrow> final_tx_hash st = Inl KeyNotFound)"
  by (simp add: get_strict_def db_get_def safe_operation_def most_voted_strategy_def
      most_voted_transfers_def participant_to_strategy_def participant_to_tx_hash_def
      most_voted_keeper_address_def safe_contract_address_def multisend_contract_address_def
      router_contract_address_def participant_to_signature_def most_voted_tx_hash_def
      most_voted_tx_data_def final_tx_hash_def)

theorem period_state_missing_key_witness:
  "db \<lparr>db = Map.empty, nb_participants = 4\<rparr> ''safe_operation'' = None
   \<and> safe_operation \<lparr>db = Map.empty, nb_participants = 4\<rparr> = Inr None
   \<and> db \<lparr>db = Map.empty, nb_participants = 4\<rparr> ''most_voted_strategy'' = None
   \<and> most_voted_strategy \<lparr>db = Map.empty, nb_participants = 4\<rparr> = Inl KeyNotFound
   \<and> most_voted_transfers \<lparr>db = Map.empty, nb_participants = 4\<rparr> = Inl KeyNotFound
   \<and> participant_to_strategy \<lparr>db = Map.empty, nb_participants = 4\<rparr> = Inl KeyNotFound
   \<and> participant_to_tx_hash \<lparr>db = Map.empty, nb_participants = 4\<rparr> = Inl KeyNotFound
   \<and> most_voted_keeper_address \<lparr>db = Map.empty, nb_participants = 4\<rparr> = Inl KeyNotFound
   \<and> safe_contract_address \<lparr>db = Map.empty, nb_participants = 4\<rparr> = Inl KeyNotFound
   \<and> multisend_contract_address \<lparr>db = Map.empty, nb_participants = 4\<rparr> = Inl KeyNotFound
   \<and> router_contract_address \<lparr>db = Map.empty, nb_participants = 4\<rparr> = Inl KeyNotFound
   \<and> participant_to_signature \<lparr>db = Map.empty, nb_participants = 4\<rparr> = Inl KeyNotFound
   \<and> most_voted_tx_hash \<lparr>db = Map.empty, nb_participants = 4\<rparr> = Inl KeyNotFound
   \<and> most_voted_tx_data \<lparr>db = Map.empty, nb_participants = 4\<rparr> = Inl KeyNotFound
   \<and> final_tx_hash \<lparr>db = Map.empty, nb_participants = 4\<rparr> = Inl KeyNotFound"
  using period_state_missing_key [of "\<lparr>db = Map.empty, nb_participants = 4\<rparr>"]
  by simp

subsection \<open>Counting votes\<close>

lemma count_le_largest_nb_votes: "count_list votes v \<le> largest_nb_votes votes"
proof (cases "v \<in> set votes")
  case True
  then have "count_list votes v \<in> insert 0 (set (map (count_list votes) votes))"
    by simp
  then show ?thesis
    unfolding largest_nb_votes_def by (intro Max_ge) simp_all
next
  case False
  then show ?thesis by (simp add: count_list_0_iff)
qed

lemma largest_nb_votes_attained:
  assumes "votes \<noteq> []"
  shows "\<exists>v \<in> set votes. count_list votes v = largest_nb_votes votes"
proof -
  let ?S = "insert 0 (set (map (count_list votes) votes))"
  have "Max ?S \<in> ?S" by (intro Max_in) simp_all
  moreover have "Max ?S \<noteq> 0"
  proof -
    from assms obtain x where x: "x \<in> set votes" by (cases votes) auto
    then have "count_list votes x \<noteq> 0" by (simp add: count_list_0_iff)
    then have "0 < count_list votes x" by simp
    moreover have "count_list votes x \<le> Max ?S"
      using count_le_largest_nb_votes[of votes x] by (simp add: largest_nb_votes_def)
    ultimately show ?thesis by simp
  qed
  ultimately show ?thesis
    unfolding largest_nb_votes_def by auto
qed

lemma largest_nb_votes_Nil: "largest_nb_votes [] = 0"
  by (simp add: largest_nb_votes_def)

lemma threshold_le_largest_iff:
  "(t \<le> int (largest_nb_votes votes)) \<longleftrightarrow> (\<exists>v. t \<le> int (count_list votes v))"
proof
  assume t: "t \<le> int (largest_nb_votes votes)"
  show "\<exists>v. t \<le> int (count_list votes v)"
  proof (cases votes)
    case Nil
    with t show ?thesis by (simp add: largest_nb_votes_Nil)
  next
    case (Cons x xs)
    then have "votes \<noteq> []" by simp
    then obtain v where "count_list votes v = largest_nb_votes votes"
      using largest_nb_votes_attained[of votes] by blast
    with t have "t \<le> int (count_list votes v)" by simp
    then show ?thesis ..
  qed
next
  assume "\<exists>v. t \<le> int (count_list votes v)"
  then obtain v where "t \<le> int (count_list votes v)" ..
  moreover have "int (count_list votes v) \<le> int (largest_nb_votes votes)"
    using count_le_largest_nb_votes[of votes v] by simp
  ultimately show "t \<le> int (largest_nb_votes votes)" by linarith
qed

lemma most_voted_payload_Inr:
  assumes "most_voted_payload payload_attribute r = Inr v"
  shows "count_list (payload_values payload_attribute (collection r)) v
           = largest_nb_votes (payload_values payload_attribute (collection r))"
  using assms
  by (auto simp: most_voted_payload_def Let_def find_Some_iff split: option.splits)

lemma most_voted_payload_exists:
  assumes "collection r \<noteq> []"
  shows "\<exists>v. most_voted_payload payload_attribute r = Inr v"
proof -
  let ?votes = "payload_values payload_attribute (collection r)"
  from assms have "?votes \<noteq> []" by (simp add: payload_values_def)
  then obtain v where "v \<in> set ?votes" "count_list ?votes v = largest_nb_votes ?votes"
    using largest_nb_votes_attained by blast
  then have "find (\<lambda>v. count_list ?votes v = largest_nb_votes ?votes) ?votes \<noteq> None"
    by (auto simp: find_None_iff)
  then show ?thesis
    by (auto simp: most_voted_payload_def Let_def split: option.splits)
qed

lemma consensus_threshold_least:
  "2 * n < 3 * consensus_threshold n"
  "2 * n < 3 * k \<Longrightarrow> consensus_threshold n \<le> k"
  unfolding consensus_threshold_def by presburger+

lemma update_two:
  "update st [(k1, v1), (k2, v2)] = st\<lparr>db := (db st)(k1 \<mapsto> v1, k2 \<mapsto> v2)\<rparr>"
  by (simp add: update_def)

lemma update_three:
  "update st [(k1, v1), (k2, v2), (k3, v3)] = st\<lparr>db := (db st)(k1 \<mapsto> v1, k2 \<mapsto> v2, k3 \<mapsto> v3)\<rparr>"
  by (simp add: update_def)

subsection \<open>StrategyEvaluationRound\<close>

text \<open>
  C1: when the threshold is reached, end_block of StrategyEvaluationRound returns a
  period state in which participant_to_strategy is the round's whole collection and
  most_voted_strategy is the agreed payload, every other key and the participant count
  being as before, together with an event fixed by the action field of the agreed
  payload: DONE for WAIT, DONE_ENTER for ENTER, DONE_EXIT for EXIT, DONE_SWAP_BACK for
  SWAP_BACK, and RESET_TIMEOUT for every other value of the field.
\<close>

theorem strategy_evaluation_commit:
  assumes reached: "threshold_reached strategy r"
      and agreed: "most_voted_payload strategy r = Inr payload"
      and action: "getitem payload ''action'' = Inr action"
  shows "\<exists>state event.
      StrategyEvaluationRound_end_block r = Inr (Some (state, event))
      \<and> participant_to_strategy state = Inr (StrategyCollection (collection r))
      \<and> most_voted_strategy state = Inr (Value payload)
      \<and> (\<forall>key. key \<noteq> ''participant_to_strategy'' \<and> key \<noteq> ''most_voted_strategy''
             \<longrightarrow> db state key = db (period_state r) key)
      \<and> nb_participants state = nb_participants (period_state r)
      \<and> (action = JString (StrategyType_value WAIT) \<longrightarrow> event = DONE)
      \<and> (action = JString (StrategyType_value ENTER) \<longrightarrow> event = DONE_ENTER)
      \<and> (action = JString (StrategyType_value EXIT_STRATEGY) \<longrightarrow> event = DONE_EXIT)
      \<and> (action = JString (StrategyType_value SWAP_BACK) \<longrightarrow> event = DONE_SWAP_BACK)
      \<and> (action \<noteq> JString (StrategyType_value WAIT)
           \<and> action \<noteq> JString (StrategyType_value ENTER)
           \<and> action \<noteq> JString (StrategyType_value EXIT_STRATEGY)
           \<and> action \<noteq> JString (StrategyType_value SWAP_BACK) \<longrightarrow> event = RESET_TIMEOUT)"
proof -
  let ?state = "update (period_state r)
                  [ (''participant_to_strategy'', StrategyCollection (collection r)),
                    (''most_voted_strategy'', Value payload) ]"
  let ?event = "if action = JString (StrategyType_value WAIT) then DONE
                else if action = JString (StrategyType_value ENTER) then DONE_ENTER
                else if action = JString (StrategyType_value EXIT_STRATEGY) then DONE_EXIT
                else if action = JString (StrategyType_value SWAP_BACK) then DONE_SWAP_BACK
                else RESET_TIMEOUT"
  have ret: "StrategyEvaluationRound_end_block r = Inr (Some (?state, ?event))"
    using reached agreed action
    by (simp add: StrategyEvaluationRound_end_block_def Let_def)
  have written: "participant_to_strategy ?state = Inr (StrategyCollection (collection r))"
    "most_voted_strategy ?state = Inr (Value payload)"
    by (simp_all add: update_two participant_to_strategy_def most_voted_strategy_def
        get_strict_def)
  have frame: "\<forall>key. key \<noteq> ''participant_to_strategy'' \<and> key \<noteq> ''most_voted_strategy''
             \<longrightarrow> db ?state key = db (period_state r) key"
    "nb_participants ?state = nb_participants (period_state r)"
    by (simp_all add: update_two)
  have events: "(action = JString (StrategyType_value WAIT) \<longrightarrow> ?event = DONE)"
    "(action = JString (StrategyType_value ENTER) \<longrightarrow> ?event = DONE_ENTER)"
    "(action = JString (StrategyType_value EXIT_STRATEGY) \<longrightarrow> ?event = DONE_EXIT)"
    "(action = JString (StrategyType_value SWAP_BACK) \<longrightarrow> ?event = DONE_SWAP_BACK)"
    "(action \<noteq> JString (StrategyType_value WAIT)
           \<and> action \<noteq> JString (StrategyType_value ENTER)
           \<and> action \<noteq> JString (StrategyType_value EXIT_STRATEGY)
           \<and> action \<noteq> JString (StrategyType_value SWAP_BACK) \<longrightarrow> ?event = RESET_TIMEOUT)"
    by simp_all
  from ret written frame events show ?thesis by blast
qed

theorem strategy_evaluation_commit_witness:
  "threshold_reached strategy
     \<lparr> period_state = \<lparr>db = Map.empty, nb_participants = 4\<rparr>,
       collection =
         [ (''agent_0'', StrategyEvaluationPayload (JObject [(''action'', JString ''enter'')])),
           (''agent_1'', StrategyEvaluationPayload (JObject [(''action'', JString ''enter'')])),
           (''agent_2'', StrategyEvaluationPayload (JObject [(''action'', JString ''exit'')])),
           (''agent_3'', StrategyEvaluationPayload (JObject [(''action'', JString ''enter'')])) ] \<rparr>
   \<and> most_voted_payload strategy
     \<lparr> period_state = \<lparr>db = Map.empty, nb_participants = 4\<rparr>,
       collection =
         [ (''agent_0'', StrategyEvaluationPayload (JObject [(''action'', JString ''enter'')])),
           (''agent_1'', StrategyEvaluationPayload (JObject [(''action'', JString ''enter'')])),
           (''agent_2'', StrategyEvaluationPayload (JObject [(''action'', JString ''exit'')])),
           (''agent_3'', StrategyEvaluationPayload (JObject [(''action'', JString ''enter'')])) ] \<rparr>
       = Inr (JObject [(''action'', JString ''enter'')])
   \<and> getitem (JObject [(''action'', JString ''enter'')]) ''action'' = Inr (JString ''enter'')
   \<and> (\<exists>state.
        StrategyEvaluationRound_end_block
          \<lparr> period_state = \<lparr>db = Map.empty, nb_participants = 4\<rparr>,
            collection =
              [ (''agent_0'', StrategyEvaluationPayload (JObject [(''action'', JString ''enter'')])),
                (''agent_1'', StrategyEvaluationPayload (JObject [(''action'', JString ''enter'')])),
                (''agent_2'', StrategyEvaluationPayload (JObject [(''action'', JString ''exit'')])),
                (''agent_3'', StrategyEvaluationPayload (JObject [(''action'', JString ''enter'')])) ] \<rparr>
          = Inr (Some (state, DONE_ENTER))
        \<and> most_voted_strategy state = Inr (Value (JObject [(''action'', JString ''enter'')])))"
proof -
  let ?r = "\<lparr> period_state = \<lparr>db = Map.empty, nb_participants = 4\<rparr>,
       collection =
         [ (''agent_0'', StrategyEvaluationPayload (JObject [(''action'', JString ''enter'')])),
           (''agent_1'', StrategyEvaluationPayload (JObject [(''action'', JString ''enter'')])),
           (''agent_2'', StrategyEvaluationPayload (JObject [(''action'', JString ''exit'')])),
           (''agent_3'', StrategyEvaluationPayload (JObject [(''action'', JString ''enter'')])) ] \<rparr>"
  have votes: "largest_nb_votes (payload_values strategy (collection ?r)) = 3"
    by (simp add: largest_nb_votes_def payload_values_def)
  have reached: "threshold_reached strategy ?r"
    unfolding threshold_reached_def votes by (simp add: consensus_threshold_def)
  have agreed: "most_voted_payload strategy ?r = Inr (JObject [(''action'', JString ''enter'')])"
    unfolding most_voted_payload_def Let_def votes by (simp add: payload_values_def)
  have action: "getitem (JObject [(''action'', JString ''enter'')]) ''action'' = Inr (JString ''enter'')"
    by simp
  from strategy_evaluation_commit [OF reached agreed action] reached agreed action
  show ?thesis by auto
qed

subsection \<open>The transaction-hash rounds\<close>

text \<open>
  C3: when the threshold is reached, end_block of a transaction-hash round decodes the
  agreed payload as JSON and returns, with the event DONE, a period state in which
  participant_to_tx_hash is the round's whole collection, most_voted_tx_hash is the
  decoded tx_hash field and most_voted_tx_data is the decoded tx_data field, every other
  key and the participant count being as before. The enter-pool, exit-pool and swap-back
  rounds return the same as the base round. In particular, for the agreed payload
  {"tx_hash":"0xabc","tx_data":"0x01"} the enter-pool round yields most_voted_tx_hash
  "0xabc", most_voted_tx_data "0x01" and DONE, and the next round is
  FinishedEnterPoolTransactionHashRound.
\<close>

theorem transaction_hash_commit:
  assumes reached: "threshold_reached tx_hash r"
      and agreed: "most_voted_payload tx_hash r = Inr payload"
      and decoded: "loads payload = Inr dict"
      and hash: "getitem dict ''tx_hash'' = Inr h"
      and data: "getitem dict ''tx_data'' = Inr d"
  shows "\<exists>state.
      TransactionHashBaseRound_end_block loads r = Inr (Some (state, DONE))
      \<and> EnterPoolTransactionHashRound_end_block loads r = Inr (Some (state, DONE))
      \<and> ExitPoolTransactionHashRound_end_block loads r = Inr (Some (state, DONE))
      \<and> SwapBackTransactionHashRound_end_block loads r = Inr (Some (state, DONE))
      \<and> participant_to_tx_hash state = Inr (TxHashCollection (collection r))
      \<and> most_voted_tx_hash state = Inr (Value h)
      \<and> most_voted_tx_data state = Inr (Value d)
      \<and> (\<forall>key. key \<noteq> ''participant_to_tx_hash'' \<and> key \<noteq> ''most_voted_tx_hash''
               \<and> key \<noteq> ''most_voted_tx_data''
             \<longrightarrow> db state key = db (period_state r) key)
      \<and> nb_participants state = nb_participants (period_state r)
      \<and> (payload = ''{\"tx_hash\":\"0xabc\",\"tx_data\":\"0x01\"}''
           \<and> dict = JObject [(''tx_hash'', JString ''0xabc''), (''tx_data'', JString ''0x01'')]
           \<longrightarrow> EnterPoolTransactionHashRound_end_block loads r = Inr (Some (state, DONE))
               \<and> most_voted_tx_hash state = Inr (Value (JString ''0xabc''))
               \<and> most_voted_tx_data state = Inr (Value (JString ''0x01''))
               \<and> next_round EnterPoolTransactionHashRound DONE
                     = Some FinishedEnterPoolTransactionHashRound)"
proof -
  let ?state = "update (period_state r)
                  [ (''participant_to_tx_hash'', TxHashCollection (collection r)),
                    (''most_voted_tx_hash'', Value h),
                    (''most_voted_tx_data'', Value d) ]"
  have ret: "TransactionHashBaseRound_end_block loads r = Inr (Some (?state, DONE))"
    using reached agreed decoded hash data
    by (simp add: TransactionHashBaseRound_end_block_def)
  have written: "participant_to_tx_hash ?state = Inr (TxHashCollection (collection r))"
    "most_voted_tx_hash ?state = Inr (Value h)"
    "most_voted_tx_data ?state = Inr (Value d)"
    by (simp_all add: update_three participant_to_tx_hash_def most_voted_tx_hash_def
        most_voted_tx_data_def get_strict_def)
  have frame: "\<forall>key. key \<noteq> ''participant_to_tx_hash'' \<and> key \<noteq> ''most_voted_tx_hash''
               \<and> key \<noteq> ''most_voted_tx_data''
             \<longrightarrow> db ?state key = db (period_state r) key"
    "nb_participants ?state = nb_participants (period_state r)"
    by (simp_all add: update_three)
  have particular:
    "dict = JObject [(''tx_hash'', JString ''0xabc''), (''tx_data'', JString ''0x01'')]
       \<Longrightarrow> h = JString ''0xabc'' \<and> d = JString ''0x01''"
    using hash data by auto
  have nxt: "next_round EnterPoolTransactionHashRound DONE
                     = Some FinishedEnterPoolTransactionHashRound"
    by (simp add: next_round_simps)
  have sub: "EnterPoolTransactionHashRound_end_block loads r = Inr (Some (?state, DONE))"
    "ExitPoolTransactionHashRound_end_block loads r = Inr (Some (?state, DONE))"
    "SwapBackTransactionHashRound_end_block loads r = Inr (Some (?state, DONE))"
    using ret
    by (simp_all add: EnterPoolTransactionHashRound_end_block_def
        ExitPoolTransactionHashRound_end_block_def SwapBackTransactionHashRound_end_block_def)
  have part: "payload = ''{\"tx_hash\":\"0xabc\",\"tx_data\":\"0x01\"}''
           \<and> dict = JObject [(''tx_hash'', JString ''0xabc''), (''tx_data'', JString ''0x01'')]
           \<longrightarrow> EnterPoolTransactionHashRound_end_block loads r = Inr (Some (?state, DONE))
               \<and> most_voted_tx_hash ?state = Inr (Value (JString ''0xabc''))
               \<and> most_voted_tx_data ?state = Inr (Value (JString ''0x01''))
               \<and> next_round EnterPoolTransactionHashRound DONE
                     = Some FinishedEnterPoolTransactionHashRound"
    using sub(1) written(2,3) particular nxt by metis
  show ?thesis
    using ret sub written frame part by blast
qed

lemma json_loads_example:
  "json_loads ''{\"tx_hash\":\"0xabc\",\"tx_data\":\"0x01\"}'' =
     Inr (JObject [(''tx_hash'', JString ''0xabc''), (''tx_data'', JString ''0x01'')])"
  by (simp add: json_loads_def is_ws_def scan_literal_def)

theorem transaction_hash_commit_witness:
  "threshold_reached tx_hash
     \<lparr> period_state = \<lparr>db = Map.empty, nb_participants = 4\<rparr>,
       collection =
         [ (''agent_0'', TransactionHashPayload ''{\"tx_hash\":\"0xabc\",\"tx_data\":\"0x01\"}''),
           (''agent_1'', TransactionHashPayload ''{\"tx_hash\":\"0xabc\",\"tx_data\":\"0x01\"}''),
           (''agent_2'', TransactionHashPayload ''{\"tx_hash\":\"0xabc\",\"tx_data\":\"0x01\"}''),
           (''agent_3'', TransactionHashPayload ''{\"tx_hash\":\"0xabc\",\"tx_data\":\"0x01\"}'') ] \<rparr>
   \<and> most_voted_payload tx_hash
     \<lparr> period_state = \<lparr>db = Map.empty, nb_participants = 4\<rparr>,
       collection =
         [ (''agent_0'', TransactionHashPayload ''{\"tx_hash\":\"0xabc\",\"tx_data\":\"0x01\"}''),
           (''agent_1'', TransactionHashPayload ''{\"tx_hash\":\"0xabc\",\"tx_data\":\"0x01\"}''),
           (''agent_2'', TransactionHashPayload ''{\"tx_hash\":\"0xabc\",\"tx_data\":\"0x01\"}''),
           (''agent_3'', TransactionHashPayload ''{\"tx_hash\":\"0xabc\",\"tx_data\":\"0x01\"}'') ] \<rparr>
       = Inr ''{\"tx_hash\":\"0xabc\",\"tx_data\":\"0x01\"}''
   \<and> json_loads ''{\"tx_hash\":\"0xabc\",\"tx_data\":\"0x01\"}''
       = Inr (JObject [(''tx_hash'', JString ''0xabc''), (''tx_data'', JString ''0x01'')])
   \<and> getitem (JObject [(''tx_hash'', JString ''0xabc''), (''tx_data'', JString ''0x01'')])
         ''tx_hash'' = Inr (JString ''0xabc'')
   \<and> getitem (JObject [(''tx_hash'', JString ''0xabc''), (''tx_data'', JString ''0x01'')])
         ''tx_data'' = Inr (JString ''0x01'')
   \<and> (\<exists>state.
        EnterPoolTransactionHashRound_end_block json_loads
          \<lparr> period_state = \<lparr>db = Map.empty, nb_participants = 4\<rparr>,
            collection =
              [ (''agent_0'', TransactionHashPayload ''{\"tx_hash\":\"0xabc\",\"tx_data\":\"0x01\"}''),
                (''agent_1'', TransactionHashPayload ''{\"tx_hash\":\"0xabc\",\"tx_data\":\"0x01\"}''),
                (''agent_2'', TransactionHashPayload ''{\"tx_hash\":\"0xabc\",\"tx_data\":\"0x01\"}''),
                (''agent_3'', TransactionHashPayload ''{\"tx_hash\":\"0xabc\",\"tx_data\":\"0x01\"}'') ] \<rparr>
          = Inr (Some (state, DONE))
        \<and> most_voted_tx_hash state = Inr (Value (JString ''0xabc''))
        \<and> most_voted_tx_data state = Inr (Value (JString ''0x01'')))
   \<and> next_round EnterPoolTransactionHashRound DONE = Some FinishedEnterPoolTransactionHashRound"
proof -
  let ?p = "''{\"tx_hash\":\"0xabc\",\"tx_data\":\"0x01\"}''"
  let ?dict = "JObject [(''tx_hash'', JString ''0xabc''), (''tx_data'', JString ''0x01'')]"
  let ?r = "\<lparr> period_state = \<lparr>db = Map.empty, nb_participants = 4\<rparr>,
       collection =
         [ (''agent_0'', TransactionHashPayload ?p), (''agent_1'', TransactionHashPayload ?p),
           (''agent_2'', TransactionHashPayload ?p), (''agent_3'', TransactionHashPayload ?p) ] \<rparr>"
  have votes: "largest_nb_votes (payload_values tx_hash (collection ?r)) = 4"
    by (simp add: largest_nb_votes_def payload_values_def)
  have reached: "threshold_reached tx_hash ?r"
    unfolding threshold_reached_def votes by (simp add: consensus_threshold_def)
  have agreed: "most_voted_payload tx_hash ?r = Inr ?p"
    unfolding most_voted_payload_def Let_def votes by (simp add: payload_values_def)
  have decoded: "json_loads ?p = Inr ?dict"
    by (rule json_loads_example)
  have hash: "getitem ?dict ''tx_hash'' = Inr (JString ''0xabc'')"
    by simp
  have data: "getitem ?dict ''tx_data'' = Inr (JString ''0x01'')"
    by simp
  from transaction_hash_commit [where loads = json_loads, OF reached agreed decoded hash data]
  obtain state where
    "EnterPoolTransactionHashRound_end_block json_loads ?r = Inr (Some (state, DONE))"
    "most_voted_tx_hash state = Inr (Value (JString ''0xabc''))"
    "most_voted_tx_data state = Inr (Value (JString ''0x01''))"
    "next_round EnterPoolTransactionHashRound DONE = Some FinishedEnterPoolTransactionHashRound"
    by blast
  with reached agreed decoded hash data show ?thesis by blast
qed

subsection \<open>Below the threshold\<close>

text \<open>
  What the arithmetic test of \<open>is_majority_possible\<close> means: as long as no more
  payloads are held than there are participants, a majority is possible exactly if
  the remaining participants could submit payloads that bring some value to the
  threshold.
\<close>

lemma largest_nb_votes_append_le:
  "largest_nb_votes (votes @ extra) \<le> largest_nb_votes votes + length extra"
proof (cases "votes @ extra = []")
  case True
  then show ?thesis by (simp add: largest_nb_votes_Nil)
next
  case False
  then obtain v where v: "count_list (votes @ extra) v = largest_nb_votes (votes @ extra)"
    using largest_nb_votes_attained by blast
  have "count_list (votes @ extra) v = count_list votes v + count_list extra v"
    by simp
  moreover have "count_list votes v \<le> largest_nb_votes votes"
    by (rule count_le_largest_nb_votes)
  moreover have "count_list extra v \<le> length extra"
    by (rule count_le_length)
  ultimately show ?thesis using v by linarith
qed

lemma count_list_replicate_same: "count_list (replicate k v) v = k"
  by (induction k) simp_all

lemma largest_nb_votes_replicate:
  "\<exists>v. largest_nb_votes votes + k \<le> largest_nb_votes (votes @ replicate k v)"
proof -
  obtain v where v: "count_list votes v = largest_nb_votes votes"
  proof (cases votes)
    case Nil
    then have "count_list votes undefined = largest_nb_votes votes"
      by (simp add: largest_nb_votes_Nil)
    then show ?thesis by (rule that)
  next
    case (Cons x xs)
    then have "votes \<noteq> []" by simp
    then show ?thesis using largest_nb_votes_attained that by blast
  qed
  have "count_list (votes @ replicate k v) v = count_list votes v + k"
    by (simp add: count_list_replicate_same)
  then have "largest_nb_votes votes + k \<le> largest_nb_votes (votes @ replicate k v)"
    using count_le_largest_nb_votes[of "votes @ replicate k v" v] v by simp
  then show ?thesis ..
qed

lemma majority_impossible_meaning:
  assumes "int (length votes_by_participant) \<le> nb"
  shows "is_majority_possible votes_by_participant nb \<longleftrightarrow>
     (\<exists>extra. int (length votes_by_participant + length extra) \<le> nb
        \<and> consensus_threshold nb
             \<le> int (largest_nb_votes (map snd votes_by_participant @ extra)))"
proof
  let ?votes = "map snd votes_by_participant"
  assume "is_majority_possible votes_by_participant nb"
  then have enough: "consensus_threshold nb
      \<le> nb - int (length ?votes) + int (largest_nb_votes ?votes)"
    by (simp add: is_majority_possible_def Let_def)
  define k where "k = nat (nb - int (length ?votes))"
  from assms have k: "int k = nb - int (length ?votes)" by (simp add: k_def)
  obtain v where "largest_nb_votes ?votes + k \<le> largest_nb_votes (?votes @ replicate k v)"
    using largest_nb_votes_replicate[of ?votes k] by blast
  with enough k have "consensus_threshold nb
      \<le> int (largest_nb_votes (?votes @ replicate k v))" by linarith
  moreover from k have "int (length votes_by_participant + length (replicate k v)) \<le> nb"
    by simp
  ultimately show "\<exists>extra. int (length votes_by_participant + length extra) \<le> nb
        \<and> consensus_threshold nb \<le> int (largest_nb_votes (?votes @ extra))"
    by blast
next
  let ?votes = "map snd votes_by_participant"
  assume "\<exists>extra. int (length votes_by_participant + length extra) \<le> nb
        \<and> consensus_threshold nb \<le> int (largest_nb_votes (?votes @ extra))"
  then obtain extra where len: "int (length votes_by_participant + length extra) \<le> nb"
    and reach: "consensus_threshold nb \<le> int (largest_nb_votes (?votes @ extra))"
    by blast
  have "largest_nb_votes (?votes @ extra) \<le> largest_nb_votes ?votes + length extra"
    by (rule largest_nb_votes_append_le)
  with len reach have "consensus_threshold nb
      \<le> nb - int (length ?votes) + int (largest_nb_votes ?votes)"
    by simp
  then show "is_majority_possible votes_by_participant nb"
    by (simp add: is_majority_possible_def Let_def)
qed

text \<open>
  C5: when the threshold is not reached, both in TransactionHashBaseRound and in
  StrategyEvaluationRound: if the largest count plus the number of participants that
  have not submitted is below the threshold, so that no value can reach it any more
  (\<open>majority_impossible_meaning\<close>), end_block returns the round's period state as it is
  with the event NO_MAJORITY; otherwise end_block returns None and the round stays open.
\<close>

theorem no_majority_or_open:
  "(\<not> threshold_reached tx_hash r
      \<and> int (largest_nb_votes (map snd (collection r)))
            + (nb_participants (period_state r) - int (length (collection r)))
          < consensus_threshold (nb_participants (period_state r))
     \<longrightarrow> TransactionHashBaseRound_end_block loads r
           = Inr (Some (period_state r, NO_MAJORITY)))
   \<and> (\<not> threshold_reached tx_hash r
      \<and> \<not> int (largest_nb_votes (map snd (collection r)))
            + (nb_participants (period_state r) - int (length (collection r)))
          < consensus_threshold (nb_participants (period_state r))
     \<longrightarrow> TransactionHashBaseRound_end_block loads r = Inr None)
   \<and> (\<not> threshold_reached strategy r'
      \<and> int (largest_nb_votes (map snd (collection r')))
            + (nb_participants (period_state r') - int (length (collection r')))
          < consensus_threshold (nb_participants (period_state r'))
     \<longrightarrow> StrategyEvaluationRound_end_block r'
           = Inr (Some (period_state r', NO_MAJORITY)))
   \<and> (\<not> threshold_reached strategy r'
      \<and> \<not> int (largest_nb_votes (map snd (collection r')))
            + (nb_participants (period_state r') - int (length (collection r')))
          < consensus_threshold (nb_participants (period_state r'))
     \<longrightarrow> StrategyEvaluationRound_end_block r' = Inr None)"
  by (simp add: TransactionHashBaseRound_end_block_def StrategyEvaluationRound_end_block_def
      is_majority_possible_def return_no_majority_event_def Let_def add.commute)

theorem no_majority_or_open_witness:
  "\<not> threshold_reached tx_hash
       \<lparr> period_state = \<lparr>db = Map.empty, nb_participants = 4\<rparr>,
         collection = [ (''agent_0'', TransactionHashPayload ''a''),
                        (''agent_1'', TransactionHashPayload ''b''),
                        (''agent_2'', TransactionHashPayload ''c'') ] \<rparr>
   \<and> TransactionHashBaseRound_end_block json_loads
       \<lparr> period_state = \<lparr>db = Map.empty, nb_participants = 4\<rparr>,
         collection = [ (''agent_0'', TransactionHashPayload ''a''),
                        (''agent_1'', TransactionHashPayload ''b''),
                        (''agent_2'', TransactionHashPayload ''c'') ] \<rparr>
       = Inr (Some (\<lparr>db = Map.empty, nb_participants = 4\<rparr>, NO_MAJORITY))
   \<and> \<not> threshold_reached tx_hash
       \<lparr> period_state = \<lparr>db = Map.empty, nb_participants = 4\<rparr>,
         collection = [ (''agent_0'', TransactionHashPayload ''a''),
                        (''agent_1'', TransactionHashPayload ''b'') ] \<rparr>
   \<and> TransactionHashBaseRound_end_block json_loads
       \<lparr> period_state = \<lparr>db = Map.empty, nb_participants = 4\<rparr>,
         collection = [ (''agent_0'', TransactionHashPayload ''a''),
                        (''agent_1'', TransactionHashPayload ''b'') ] \<rparr>
       = Inr None
   \<and> \<not> threshold_reached strategy
       \<lparr> period_state = \<lparr>db = Map.empty, nb_participants = 4\<rparr>,
         collection = [ (''agent_0'', StrategyEvaluationPayload (JObject [(''action'', JString ''wait'')])),
                        (''agent_1'', StrategyEvaluationPayload (JObject [(''action'', JString ''enter'')])),
                        (''agent_2'', StrategyEvaluationPayload (JObject [(''action'', JString ''exit'')])) ] \<rparr>
   \<and> StrategyEvaluationRound_end_block
       \<lparr> period_state = \<lparr>db = Map.empty, nb_participants = 4\<rparr>,
         collection = [ (''agent_0'', StrategyEvaluationPayload (JObject [(''action'', JString ''wait'')])),
                        (''agent_1'', StrategyEvaluationPayload (JObject [(''action'', JString ''enter'')])),
                        (''agent_2'', StrategyEvaluationPayload (JObject [(''action'', JString ''exit'')])) ] \<rparr>
       = Inr (Some (\<lparr>db = Map.empty, nb_participants = 4\<rparr>, NO_MAJORITY))
   \<and> \<not> threshold_reached strategy
       \<lparr> period_state = \<lparr>db = Map.empty, nb_participants = 4\<rparr>,
         collection = [ (''agent_0'', StrategyEvaluationPayload (JObject [(''action'', JString ''wait'')])),
                        (''agent_1'', StrategyEvaluationPayload (JObject [(''action'', JString ''enter'')])) ] \<rparr>
   \<and> StrategyEvaluationRound_end_block
       \<lparr> period_state = \<lparr>db = Map.empty, nb_participants = 4\<rparr>,
         collection = [ (''agent_0'', StrategyEvaluationPayload (JObject [(''action'', JString ''wait'')])),
                        (''agent_1'', StrategyEvaluationPayload (JObject [(''action'', JString ''enter'')])) ] \<rparr>
       = Inr None"
proof -
  let ?st = "\<lparr>db = Map.empty, nb_participants = 4\<rparr>"
  let ?t3 = "\<lparr> period_state = ?st,
         collection = [ (''agent_0'', TransactionHashPayload ''a''),
                        (''agent_1'', TransactionHashPayload ''b''),
                        (''agent_2'', TransactionHashPayload ''c'') ] \<rparr>"
  let ?t2 = "\<lparr> period_state = ?st,
         collection = [ (''agent_0'', TransactionHashPayload ''a''),
                        (''agent_1'', TransactionHashPayload ''b'') ] \<rparr>"
  let ?s3 = "\<lparr> period_state = ?st,
         collection = [ (''agent_0'', StrategyEvaluationPayload (JObject [(''action'', JString ''wait'')])),
                        (''agent_1'', StrategyEvaluationPayload (JObject [(''action'', JString ''enter'')])),
                        (''agent_2'', StrategyEvaluationPayload (JObject [(''action'', JString ''exit'')])) ] \<rparr>"
  let ?s2 = "\<lparr> period_state = ?st,
         collection = [ (''agent_0'', StrategyEvaluationPayload (JObject [(''action'', JString ''wait'')])),
                        (''agent_1'', StrategyEvaluationPayload (JObject [(''action'', JString ''enter'')])) ] \<rparr>"
  have t3: "largest_nb_votes (payload_values tx_hash (collection ?t3)) = 1"
    "largest_nb_votes (map snd (collection ?t3)) = 1"
    by (simp_all add: largest_nb_votes_def payload_values_def)
  have t2: "largest_nb_votes (payload_values tx_hash (collection ?t2)) = 1"
    "largest_nb_votes (map snd (collection ?t2)) = 1"
    by (simp_all add: largest_nb_votes_def payload_values_def)
  have s3: "largest_nb_votes (payload_values strategy (collection ?s3)) = 1"
    "largest_nb_votes (map snd (collection ?s3)) = 1"
    by (simp_all add: largest_nb_votes_def payload_values_def)
  have s2: "largest_nb_votes (payload_values strategy (collection ?s2)) = 1"
    "largest_nb_votes (map snd (collection ?s2)) = 1"
    by (simp_all add: largest_nb_votes_def payload_values_def)
  have not_reached: "\<not> threshold_reached tx_hash ?t3" "\<not> threshold_reached tx_hash ?t2"
    "\<not> threshold_reached strategy ?s3" "\<not> threshold_reached strategy ?s2"
    unfolding threshold_reached_def t3 t2 s3 s2 by (simp_all add: consensus_threshold_def)
  have impossible:
    "int (largest_nb_votes (map snd (collection ?t3)))
       + (nb_participants (period_state ?t3) - int (length (collection ?t3)))
     < consensus_threshold (nb_participants (period_state ?t3))"
    "int (largest_nb_votes (map snd (collection ?s3)))
       + (nb_participants (period_state ?s3) - int (length (collection ?s3)))
     < consensus_threshold (nb_participants (period_state ?s3))"
    unfolding t3 s3 by (simp_all add: consensus_threshold_def)
  have possible:
    "\<not> int (largest_nb_votes (map snd (collection ?t2)))
       + (nb_participants (period_state ?t2) - int (length (collection ?t2)))
     < consensus_threshold (nb_participants (period_state ?t2))"
    "\<not> int (largest_nb_votes (map snd (collection ?s2)))
       + (nb_participants (period_state ?s2) - int (length (collection ?s2)))
     < consensus_threshold (nb_participants (period_state ?s2))"
    unfolding t2 s2 by (simp_all add: consensus_threshold_def)
  from no_majority_or_open [of ?t3 json_loads ?s3] not_reached(1,3) impossible
  have a: "TransactionHashBaseRound_end_block json_loads ?t3
             = Inr (Some (period_state ?t3, NO_MAJORITY))"
    "StrategyEvaluationRound_end_block ?s3 = Inr (Some (period_state ?s3, NO_MAJORITY))"
    by blast+
  from no_majority_or_open [of ?t2 json_loads ?s2] not_reached(2,4) possible
  have b: "TransactionHashBaseRound_end_block json_loads ?t2 = Inr None"
    "StrategyEvaluationRound_end_block ?s2 = Inr None"
    by blast+
  from a b not_reached show ?thesis by simp
qed

subsection \<open>The threshold\<close>

lemma threshold_reached_iff:
  "threshold_reached payload_attribute r \<longleftrightarrow>
     (\<exists>v. consensus_threshold (nb_participants (period_state r))
            \<le> int (count_list (payload_values payload_attribute (collection r)) v))"
  unfolding threshold_reached_def by (rule threshold_le_largest_iff)

text \<open>
  C6: for every participant count n (so for every n of at least 1), the threshold is the
  smallest integer strictly greater than 2n/3, and it is 3 for n = 4; it is the threshold
  that threshold_reached and is_majority_possible compare with; and a round commits only
  if some payload value has at least that many votes: a transaction-hash round that
  returns DONE, and a strategy round that returns an event other than NO_MAJORITY, hold
  a value submitted at least threshold times.
\<close>

theorem consensus_threshold_supermajority:
  "2 * real_of_int n / 3 < real_of_int (consensus_threshold n)
   \<and> (\<forall>k::int. 2 * real_of_int n / 3 < real_of_int k \<longrightarrow> consensus_threshold n \<le> k)
   \<and> consensus_threshold 4 = 3
   \<and> (threshold_reached payload_attribute r \<longleftrightarrow>
        consensus_threshold (nb_participants (period_state r))
          \<le> int (largest_nb_votes (payload_values payload_attribute (collection r))))
   \<and> (is_majority_possible votes_by_participant n \<longleftrightarrow>
        \<not> int (largest_nb_votes (map snd votes_by_participant))
              + (n - int (length votes_by_participant))
            < consensus_threshold n)
   \<and> (TransactionHashBaseRound_end_block loads tx_round = Inr (Some (state, DONE)) \<longrightarrow>
        (\<exists>v. consensus_threshold (nb_participants (period_state tx_round))
               \<le> int (count_list (payload_values tx_hash (collection tx_round)) v)))
   \<and> (StrategyEvaluationRound_end_block strategy_round = Inr (Some (state', event))
        \<and> event \<noteq> NO_MAJORITY \<longrightarrow>
        (\<exists>v. consensus_threshold (nb_participants (period_state strategy_round))
               \<le> int (count_list (payload_values strategy (collection strategy_round)) v)))"
proof -
  have above: "2 * real_of_int n / 3 < real_of_int (consensus_threshold n)"
  proof -
    have "2 * n < 3 * consensus_threshold n" by (rule consensus_threshold_least)
    then have "real_of_int (2 * n) < real_of_int (3 * consensus_threshold n)"
      by (simp only: of_int_less_iff)
    then show ?thesis by simp
  qed
  have least: "\<forall>k::int. 2 * real_of_int n / 3 < real_of_int k \<longrightarrow> consensus_threshold n \<le> k"
  proof (intro allI impI)
    fix k :: int
    assume "2 * real_of_int n / 3 < real_of_int k"
    then have "real_of_int (2 * n) < real_of_int (3 * k)" by simp
    then have "2 * n < 3 * k" by (simp only: of_int_less_iff)
    then show "consensus_threshold n \<le> k" by (rule consensus_threshold_least)
  qed
  have four: "consensus_threshold 4 = 3"
    by (simp add: consensus_threshold_def)
  have used: "threshold_reached payload_attribute r \<longleftrightarrow>
        consensus_threshold (nb_participants (period_state r))
          \<le> int (largest_nb_votes (payload_values payload_attribute (collection r)))"
    "is_majority_possible votes_by_participant n \<longleftrightarrow>
        \<not> int (largest_nb_votes (map snd votes_by_participant))
              + (n - int (length votes_by_participant))
            < consensus_threshold n"
    by (simp_all add: threshold_reached_def is_majority_possible_def Let_def add.commute)
  have tx: "TransactionHashBaseRound_end_block loads tx_round = Inr (Some (state, DONE)) \<longrightarrow>
        (\<exists>v. consensus_threshold (nb_participants (period_state tx_round))
               \<le> int (count_list (payload_values tx_hash (collection tx_round)) v))"
  proof
    assume ret: "TransactionHashBaseRound_end_block loads tx_round = Inr (Some (state, DONE))"
    have "threshold_reached tx_hash tx_round"
    proof (rule ccontr)
      assume "\<not> threshold_reached tx_hash tx_round"
      with ret show False
        by (simp add: TransactionHashBaseRound_end_block_def return_no_majority_event_def
            split: if_splits)
    qed
    then show "\<exists>v. consensus_threshold (nb_participants (period_state tx_round))
               \<le> int (count_list (payload_values tx_hash (collection tx_round)) v)"
      by (simp only: threshold_reached_iff)
  qed
  have st: "StrategyEvaluationRound_end_block strategy_round = Inr (Some (state', event))
        \<and> event \<noteq> NO_MAJORITY \<longrightarrow>
        (\<exists>v. consensus_threshold (nb_participants (period_state strategy_round))
               \<le> int (count_list (payload_values strategy (collection strategy_round)) v))"
  proof
    assume ret: "StrategyEvaluationRound_end_block strategy_round = Inr (Some (state', event))
        \<and> event \<noteq> NO_MAJORITY"
    have "threshold_reached strategy strategy_round"
    proof (rule ccontr)
      assume "\<not> threshold_reached strategy strategy_round"
      with ret show False
        by (auto simp add: StrategyEvaluationRound_end_block_def return_no_majority_event_def
            split: if_splits)
    qed
    then show "\<exists>v. consensus_threshold (nb_participants (period_state strategy_round))
               \<le> int (count_list (payload_values strategy (collection strategy_round)) v)"
      by (simp only: threshold_reached_iff)
  qed
  from above least four used tx st show ?thesis by blast
qed


text \<open>
  Two committed rounds with four participants: four equal transaction-hash payloads, and
  three strategy payloads with the action enter against one with the action exit.
\<close>

lemma example_tx_round_commits:
  "TransactionHashBaseRound_end_block json_loads
     \<lparr> period_state = \<lparr>db = Map.empty, nb_participants = 4\<rparr>,
       collection =
         [ (''agent_0'', TransactionHashPayload ''{\"tx_hash\":\"0xabc\",\"tx_data\":\"0x01\"}''),
           (''agent_1'', TransactionHashPayload ''{\"tx_hash\":\"0xabc\",\"tx_data\":\"0x01\"}''),
           (''agent_2'', TransactionHashPayload ''{\"tx_hash\":\"0xabc\",\"tx_data\":\"0x01\"}''),
           (''agent_3'', TransactionHashPayload ''{\"tx_hash\":\"0xabc\",\"tx_data\":\"0x01\"}'') ] \<rparr>
   = Inr (Some
       (\<lparr> db = [ ''participant_to_tx_hash'' \<mapsto> TxHashCollection
                   [ (''agent_0'', TransactionHashPayload ''{\"tx_hash\":\"0xabc\",\"tx_data\":\"0x01\"}''),
                     (''agent_1'', TransactionHashPayload ''{\"tx_hash\":\"0xabc\",\"tx_data\":\"0x01\"}''),
                     (''agent_2'', TransactionHashPayload ''{\"tx_hash\":\"0xabc\",\"tx_data\":\"0x01\"}''),
                     (''agent_3'', TransactionHashPayload ''{\"tx_hash\":\"0xabc\",\"tx_data\":\"0x01\"}'') ],
                 ''most_voted_tx_hash'' \<mapsto> Value (JString ''0xabc''),
                 ''most_voted_tx_data'' \<mapsto> Value (JString ''0x01'') ],
          nb_participants = 4 \<rparr>, DONE))"
proof -
  let ?r = "\<lparr> period_state = \<lparr>db = Map.empty, nb_participants = 4\<rparr>,
              collection =
                [ (''agent_0'', TransactionHashPayload ''{\"tx_hash\":\"0xabc\",\"tx_data\":\"0x01\"}''),
                  (''agent_1'', TransactionHashPayload ''{\"tx_hash\":\"0xabc\",\"tx_data\":\"0x01\"}''),
                  (''agent_2'', TransactionHashPayload ''{\"tx_hash\":\"0xabc\",\"tx_data\":\"0x01\"}''),
                  (''agent_3'', TransactionHashPayload ''{\"tx_hash\":\"0xabc\",\"tx_data\":\"0x01\"}'') ] \<rparr>"
  have votes: "largest_nb_votes (payload_values tx_hash (collection ?r)) = 4"
    by (simp add: largest_nb_votes_def payload_values_def)
  have reached: "threshold_reached tx_hash ?r"
    unfolding threshold_reached_def votes by (simp add: consensus_threshold_def)
  have agreed: "most_voted_payload tx_hash ?r = Inr ''{\"tx_hash\":\"0xabc\",\"tx_data\":\"0x01\"}''"
    unfolding most_voted_payload_def Let_def votes by (simp add: payload_values_def)
  show ?thesis
    unfolding TransactionHashBaseRound_end_block_def
    by (simp add: reached agreed json_loads_example update_three)
qed

lemma example_strategy_round_commits:
  "StrategyEvaluationRound_end_block
     \<lparr> period_state = \<lparr>db = Map.empty, nb_participants = 4\<rparr>,
       collection =
         [ (''agent_0'', StrategyEvaluationPayload (JObject [(''action'', JString ''enter'')])),
           (''agent_1'', StrategyEvaluationPayload (JObject [(''action'', JString ''enter'')])),
           (''agent_2'', StrategyEvaluationPayload (JObject [(''action'', JString ''exit'')])),
           (''agent_3'', StrategyEvaluationPayload (JObject [(''action'', JString ''enter'')])) ] \<rparr>
   = Inr (Some
       (\<lparr> db = [ ''participant_to_strategy'' \<mapsto> StrategyCollection
                   [ (''agent_0'', StrategyEvaluationPayload (JObject [(''action'', JString ''enter'')])),
                     (''agent_1'', StrategyEvaluationPayload (JObject [(''action'', JString ''enter'')])),
                     (''agent_2'', StrategyEvaluationPayload (JObject [(''action'', JString ''exit'')])),
                     (''agent_3'', StrategyEvaluationPayload (JObject [(''action'', JString ''enter'')])) ],
                 ''most_voted_strategy'' \<mapsto> Value (JObject [(''action'', JString ''enter'')]) ],
          nb_participants = 4 \<rparr>, DONE_ENTER))"
proof -
  let ?r = "\<lparr> period_state = \<lparr>db = Map.empty, nb_participants = 4\<rparr>,
              collection =
                [ (''agent_0'', StrategyEvaluationPayload (JObject [(''action'', JString ''enter'')])),
                  (''agent_1'', StrategyEvaluationPayload (JObject [(''action'', JString ''enter'')])),
                  (''agent_2'', StrategyEvaluationPayload (JObject [(''action'', JString ''exit'')])),
                  (''agent_3'', StrategyEvaluationPayload (JObject [(''action'', JString ''enter'')])) ] \<rparr>"
  have votes: "largest_nb_votes (payload_values strategy (collection ?r)) = 3"
    by (simp add: largest_nb_votes_def payload_values_def)
  have reached: "threshold_reached strategy ?r"
    unfolding threshold_reached_def votes by (simp add: consensus_threshold_def)
  have agreed: "most_voted_payload strategy ?r = Inr (JObject [(''action'', JString ''enter'')])"
    unfolding most_voted_payload_def Let_def votes by (simp add: payload_values_def)
  show ?thesis
    unfolding StrategyEvaluationRound_end_block_def
    by (simp add: reached agreed update_two)
qed

theorem consensus_threshold_supermajority_witness:
  "2 * real_of_int 4 / 3 < real_of_int 3
   \<and> consensus_threshold 4 \<le> 3
   \<and> TransactionHashBaseRound_end_block json_loads
       \<lparr> period_state = \<lparr>db = Map.empty, nb_participants = 4\<rparr>,
         collection =
           [ (''agent_0'', TransactionHashPayload ''{\"tx_hash\":\"0xabc\",\"tx_data\":\"0x01\"}''),
             (''agent_1'', TransactionHashPayload ''{\"tx_hash\":\"0xabc\",\"tx_data\":\"0x01\"}''),
             (''agent_2'', TransactionHashPayload ''{\"tx_hash\":\"0xabc\",\"tx_data\":\"0x01\"}''),
             (''agent_3'', TransactionHashPayload ''{\"tx_hash\":\"0xabc\",\"tx_data\":\"0x01\"}'') ] \<rparr>
     = Inr (Some
         (\<lparr> db = [ ''participant_to_tx_hash'' \<mapsto> TxHashCollection
                     [ (''agent_0'', TransactionHashPayload ''{\"tx_hash\":\"0xabc\",\"tx_data\":\"0x01\"}''),
                       (''agent_1'', TransactionHashPayload ''{\"tx_hash\":\"0xabc\",\"tx_data\":\"0x01\"}''),
                       (''agent_2'', TransactionHashPayload ''{\"tx_hash\":\"0xabc\",\"tx_data\":\"0x01\"}''),
                       (''agent_3'', TransactionHashPayload ''{\"tx_hash\":\"0xabc\",\"tx_data\":\"0x01\"}'') ],
                   ''most_voted_tx_hash'' \<mapsto> Value (JString ''0xabc''),
                   ''most_voted_tx_data'' \<mapsto> Value (JString ''0x01'') ],
            nb_participants = 4 \<rparr>, DONE))
   \<and> (\<exists>v. consensus_threshold 4
            \<le> int (count_list
                 (payload_values tx_hash
                    [ (''agent_0'', TransactionHashPayload ''{\"tx_hash\":\"0xabc\",\"tx_data\":\"0x01\"}''),
                      (''agent_1'', TransactionHashPayload ''{\"tx_hash\":\"0xabc\",\"tx_data\":\"0x01\"}''),
                      (''agent_2'', TransactionHashPayload ''{\"tx_hash\":\"0xabc\",\"tx_data\":\"0x01\"}''),
                      (''agent_3'', TransactionHashPayload ''{\"tx_hash\":\"0xabc\",\"tx_data\":\"0x01\"}'') ]) v))
   \<and> StrategyEvaluationRound_end_block
       \<lparr> period_state = \<lparr>db = Map.empty, nb_participants = 4\<rparr>,
         collection =
           [ (''agent_0'', StrategyEvaluationPayload (JObject [(''action'', JString ''enter'')])),
             (''agent_1'', StrategyEvaluationPayload (JObject [(''action'', JString ''enter'')])),
             (''agent_2'', StrategyEvaluationPayload (JObject [(''action'', JString ''exit'')])),
             (''agent_3'', StrategyEvaluationPayload (JObject [(''action'', JString ''enter'')])) ] \<rparr>
     = Inr (Some
         (\<lparr> db = [ ''participant_to_strategy'' \<mapsto> StrategyCollection
                     [ (''agent_0'', StrategyEvaluationPayload (JObject [(''action'', JString ''enter'')])),
                       (''agent_1'', StrategyEvaluationPayload (JObject [(''action'', JString ''enter'')])),
                       (''agent_2'', StrategyEvaluationPayload (JObject [(''action'', JString ''exit'')])),
                       (''agent_3'', StrategyEvaluationPayload (JObject [(''action'', JString ''enter'')])) ],
                   ''most_voted_strategy'' \<mapsto> Value (JObject [(''action'', JString ''enter'')]) ],
            nb_participants = 4 \<rparr>, DONE_ENTER))
   \<and> DONE_ENTER \<noteq> NO_MAJORITY
   \<and> (\<exists>v. consensus_threshold 4
            \<le> int (count_list
                 (payload_values strategy
                    [ (''agent_0'', StrategyEvaluationPayload (JObject [(''action'', JString ''enter'')])),
                      (''agent_1'', StrategyEvaluationPayload (JObject [(''action'', JString ''enter'')])),
                      (''agent_2'', StrategyEvaluationPayload (JObject [(''action'', JString ''exit'')])),
                      (''agent_3'', StrategyEvaluationPayload (JObject [(''action'', JString ''enter'')])) ]) v))"
proof -
  let ?tc = "[ (''agent_0'', TransactionHashPayload ''{\"tx_hash\":\"0xabc\",\"tx_data\":\"0x01\"}''),
               (''agent_1'', TransactionHashPayload ''{\"tx_hash\":\"0xabc\",\"tx_data\":\"0x01\"}''),
               (''agent_2'', TransactionHashPayload ''{\"tx_hash\":\"0xabc\",\"tx_data\":\"0x01\"}''),
               (''agent_3'', TransactionHashPayload ''{\"tx_hash\":\"0xabc\",\"tx_data\":\"0x01\"}'') ]"
  let ?t = "\<lparr> period_state = \<lparr>db = Map.empty, nb_participants = 4\<rparr>, collection = ?tc \<rparr>"
  let ?ts = "\<lparr> db = [ ''participant_to_tx_hash'' \<mapsto> TxHashCollection ?tc,
                       ''most_voted_tx_hash'' \<mapsto> Value (JString ''0xabc''),
                       ''most_voted_tx_data'' \<mapsto> Value (JString ''0x01'') ],
                nb_participants = 4 \<rparr>"
  let ?sc = "[ (''agent_0'', StrategyEvaluationPayload (JObject [(''action'', JString ''enter'')])),
               (''agent_1'', StrategyEvaluationPayload (JObject [(''action'', JString ''enter'')])),
               (''agent_2'', StrategyEvaluationPayload (JObject [(''action'', JString ''exit'')])),
               (''agent_3'', StrategyEvaluationPayload (JObject [(''action'', JString ''enter'')])) ]"
  let ?s = "\<lparr> period_state = \<lparr>db = Map.empty, nb_participants = 4\<rparr>, collection = ?sc \<rparr>"
  let ?ss = "\<lparr> db = [ ''participant_to_strategy'' \<mapsto> StrategyCollection ?sc,
                       ''most_voted_strategy'' \<mapsto> Value (JObject [(''action'', JString ''enter'')]) ],
                nb_participants = 4 \<rparr>"
  note facts = consensus_threshold_supermajority
    [where n = 4 and loads = json_loads and tx_round = ?t and state = ?ts
       and strategy_round = ?s and state' = ?ss and event = DONE_ENTER]
  have above: "2 * real_of_int 4 / 3 < real_of_int 3" by simp
  with facts have least: "consensus_threshold 4 \<le> 3" by blast
  have tx: "TransactionHashBaseRound_end_block json_loads ?t = Inr (Some (?ts, DONE))"
    by (rule example_tx_round_commits)
  with facts have "\<exists>v. consensus_threshold (nb_participants (period_state ?t))
               \<le> int (count_list (payload_values tx_hash (collection ?t)) v)"
    by blast
  then have tx_votes: "\<exists>v. consensus_threshold 4
               \<le> int (count_list (payload_values tx_hash ?tc) v)"
    by simp
  have st: "StrategyEvaluationRound_end_block ?s = Inr (Some (?ss, DONE_ENTER))"
    by (rule example_strategy_round_commits)
  have ev: "DONE_ENTER \<noteq> NO_MAJORITY" by simp
  from facts st ev have "\<exists>v. consensus_threshold (nb_participants (period_state ?s))
               \<le> int (count_list (payload_values strategy (collection ?s)) v)"
    by blast
  then have st_votes: "\<exists>v. consensus_threshold 4
               \<le> int (count_list (payload_values strategy ?sc) v)"
    by simp
  from above least tx tx_votes st ev st_votes show ?thesis
    by blast
qed

subsection \<open>Calling end_block again\<close>

lemma fold_upd_map_add:
  "fold (\<lambda>(k, v) store. store(k \<mapsto> v)) kwargs m = m ++ map_of (rev kwargs)"
proof (induction kwargs arbitrary: m)
  case Nil
  then show ?case by simp
next
  case (Cons kv kwargs)
  obtain k v where kv: "kv = (k, v)" by (cases kv)
  have "fold (\<lambda>(k, v) store. store(k \<mapsto> v)) (kv # kwargs) m
          = fold (\<lambda>(k, v) store. store(k \<mapsto> v)) kwargs (m(k \<mapsto> v))"
    by (simp add: kv)
  also have "\<dots> = m(k \<mapsto> v) ++ map_of (rev kwargs)"
    by (rule Cons.IH)
  also have "\<dots> = m ++ map_of (rev (kv # kwargs))"
    by (rule ext) (simp add: kv map_of_append map_add_def split: option.splits)
  finally show ?case .
qed

lemma update_idem: "update (update st kwargs) kwargs = update st kwargs"
proof -
  have "(db st ++ map_of (rev kwargs)) ++ map_of (rev kwargs) = db st ++ map_of (rev kwargs)"
    by (simp add: map_add_def fun_eq_iff split: option.splits)
  then show ?thesis
    by (simp add: update_def fold_upd_map_add)
qed

lemma nb_participants_update: "nb_participants (update st kwargs) = nb_participants st"
  by (simp add: update_def)

lemma threshold_reached_period_state:
  "nb_participants st = nb_participants (period_state r) \<Longrightarrow>
     threshold_reached payload_attribute (r\<lparr>period_state := st\<rparr>)
       = threshold_reached payload_attribute r"
  by (simp add: threshold_reached_def)

lemma most_voted_payload_period_state:
  "most_voted_payload payload_attribute (r\<lparr>period_state := st\<rparr>)
     = most_voted_payload payload_attribute r"
  by (simp add: most_voted_payload_def)

text \<open>
  A round whose commit has fired, holding the period state that the commit returned:
  the threshold is still reached, the keyword arguments of \<^verbatim>\<open>update\<close> are the same, and
  writing them a second time changes nothing.
\<close>

lemma tx_round_commits_again:
  assumes reached: "threshold_reached tx_hash r"
      and ret: "TransactionHashBaseRound_end_block loads r = Inr (Some (state, event))"
  shows "event = DONE"
    and "threshold_reached tx_hash (r\<lparr>period_state := state\<rparr>)"
    and "TransactionHashBaseRound_end_block loads (r\<lparr>period_state := state\<rparr>)
           = Inr (Some (state, event))"
proof -
  from reached ret obtain payload dict h d where
    agreed: "most_voted_payload tx_hash r = Inr payload"
    and decoded: "loads payload = Inr dict"
    and hash: "getitem dict ''tx_hash'' = Inr h"
    and data: "getitem dict ''tx_data'' = Inr d"
    and state: "state = update (period_state r)
                  [ (''participant_to_tx_hash'', TxHashCollection (collection r)),
                    (''most_voted_tx_hash'', Value h),
                    (''most_voted_tx_data'', Value d) ]"
    and event: "event = DONE"
    by (auto simp: TransactionHashBaseRound_end_block_def split: sum.splits)
  show "event = DONE" by (rule event)
  have nb: "nb_participants state = nb_participants (period_state r)"
    unfolding state by (rule nb_participants_update)
  with reached show again: "threshold_reached tx_hash (r\<lparr>period_state := state\<rparr>)"
    by (simp add: threshold_reached_period_state)
  have "update state
          [ (''participant_to_tx_hash'', TxHashCollection (collection r)),
            (''most_voted_tx_hash'', Value h),
            (''most_voted_tx_data'', Value d) ] = state"
    unfolding state by (rule update_idem)
  with again agreed decoded hash data event
  show "TransactionHashBaseRound_end_block loads (r\<lparr>period_state := state\<rparr>)
           = Inr (Some (state, event))"
    by (simp add: TransactionHashBaseRound_end_block_def most_voted_payload_period_state)
qed

lemma strategy_round_commits_again:
  assumes reached: "threshold_reached strategy r"
      and ret: "StrategyEvaluationRound_end_block r = Inr (Some (state, event))"
  shows "event \<noteq> NO_MAJORITY"
    and "threshold_reached strategy (r\<lparr>period_state := state\<rparr>)"
    and "StrategyEvaluationRound_end_block (r\<lparr>period_state := state\<rparr>)
           = Inr (Some (state, event))"
proof -
  from reached ret obtain payload action where
    agreed: "most_voted_payload strategy r = Inr payload"
    and action: "getitem payload ''action'' = Inr action"
    and state: "state = update (period_state r)
                  [ (''participant_to_strategy'', StrategyCollection (collection r)),
                    (''most_voted_strategy'', Value payload) ]"
    and event: "event =
                 (if action = JString (StrategyType_value WAIT) then DONE
                  else if action = JString (StrategyType_value ENTER) then DONE_ENTER
                  else if action = JString (StrategyType_value EXIT_STRATEGY) then DONE_EXIT
                  else if action = JString (StrategyType_value SWAP_BACK) then DONE_SWAP_BACK
                  else RESET_TIMEOUT)"
    by (auto simp: StrategyEvaluationRound_end_block_def Let_def split: sum.splits)
  from event show "event \<noteq> NO_MAJORITY" by simp
  have nb: "nb_participants state = nb_participants (period_state r)"
    unfolding state by (rule nb_participants_update)
  with reached show again: "threshold_reached strategy (r\<lparr>period_state := state\<rparr>)"
    by (simp add: threshold_reached_period_state)
  have "update state
          [ (''participant_to_strategy'', StrategyCollection (collection r)),
            (''most_voted_strategy'', Value payload) ] = state"
    unfolding state by (rule update_idem)
  with again agreed action event
  show "StrategyEvaluationRound_end_block (r\<lparr>period_state := state\<rparr>)
           = Inr (Some (state, event))"
    by (simp add: StrategyEvaluationRound_end_block_def most_voted_payload_period_state Let_def)
qed

text \<open>
  C4, amended: when the threshold is reached and end_block of TransactionHashBaseRound or
  of StrategyEvaluationRound has returned a decision (state, event), a further call to
  end_block returns the same decision (state, event), and not None, both on the round as
  it was before the first call and on the round holding the returned period state. The
  period state of the second decision is the one of the first: the second call writes
  nothing more. The event is DONE in the transaction-hash round and is not NO_MAJORITY
  in the strategy round.
\<close>

theorem end_block_commits_again:
  "(threshold_reached tx_hash r
      \<and> TransactionHashBaseRound_end_block loads r = Inr (Some (state, event))
      \<and> (r2 = r \<or> r2 = r\<lparr>period_state := state\<rparr>)
     \<longrightarrow> event = DONE
         \<and> threshold_reached tx_hash r2
         \<and> TransactionHashBaseRound_end_block loads r2 = Inr (Some (state, event))
         \<and> TransactionHashBaseRound_end_block loads r2 \<noteq> Inr None)
   \<and> (threshold_reached strategy r'
      \<and> StrategyEvaluationRound_end_block r' = Inr (Some (state', event'))
      \<and> (r2' = r' \<or> r2' = r'\<lparr>period_state := state'\<rparr>)
     \<longrightarrow> event' \<noteq> NO_MAJORITY
         \<and> threshold_reached strategy r2'
         \<and> StrategyEvaluationRound_end_block r2' = Inr (Some (state', event'))
         \<and> StrategyEvaluationRound_end_block r2' \<noteq> Inr None)"
proof (intro conjI impI)
  assume H: "threshold_reached tx_hash r
      \<and> TransactionHashBaseRound_end_block loads r = Inr (Some (state, event))
      \<and> (r2 = r \<or> r2 = r\<lparr>period_state := state\<rparr>)"
  then have reached: "threshold_reached tx_hash r"
    and ret: "TransactionHashBaseRound_end_block loads r = Inr (Some (state, event))"
    and r2: "r2 = r \<or> r2 = r\<lparr>period_state := state\<rparr>"
    by blast+
  show "event = DONE"
    using reached ret by (rule tx_round_commits_again)
  show "threshold_reached tx_hash r2"
    using r2 reached tx_round_commits_again(2)[OF reached ret] by blast
  show again: "TransactionHashBaseRound_end_block loads r2 = Inr (Some (state, event))"
    using r2 ret tx_round_commits_again(3)[OF reached ret] by blast
  then show "TransactionHashBaseRound_end_block loads r2 \<noteq> Inr None" by simp
next
  assume H: "threshold_reached strategy r'
      \<and> StrategyEvaluationRound_end_block r' = Inr (Some (state', event'))
      \<and> (r2' = r' \<or> r2' = r'\<lparr>period_state := state'\<rparr>)"
  then have reached: "threshold_reached strategy r'"
    and ret: "StrategyEvaluationRound_end_block r' = Inr (Some (state', event'))"
    and r2: "r2' = r' \<or> r2' = r'\<lparr>period_state := state'\<rparr>"
    by blast+
  show "event' \<noteq> NO_MAJORITY"
    using reached ret by (rule strategy_round_commits_again)
  show "threshold_reached strategy r2'"
    using r2 reached strategy_round_commits_again(2)[OF reached ret] by blast
  show again: "StrategyEvaluationRound_end_block r2' = Inr (Some (state', event'))"
    using r2 ret strategy_round_commits_again(3)[OF reached ret] by blast
  then show "StrategyEvaluationRound_end_block r2' \<noteq> Inr None" by simp
qed


lemma example_tx_round_reached:
  "threshold_reached tx_hash
     \<lparr> period_state = \<lparr>db = Map.empty, nb_participants = 4\<rparr>,
       collection =
         [ (''agent_0'', TransactionHashPayload ''{\"tx_hash\":\"0xabc\",\"tx_data\":\"0x01\"}''),
           (''agent_1'', TransactionHashPayload ''{\"tx_hash\":\"0xabc\",\"tx_data\":\"0x01\"}''),
           (''agent_2'', TransactionHashPayload ''{\"tx_hash\":\"0xabc\",\"tx_data\":\"0x01\"}''),
           (''agent_3'', TransactionHashPayload ''{\"tx_hash\":\"0xabc\",\"tx_data\":\"0x01\"}'') ] \<rparr>"
  by (simp add: threshold_reached_def largest_nb_votes_def payload_values_def
      consensus_threshold_def)

lemma example_strategy_round_reached:
  "threshold_reached strategy
     \<lparr> period_state = \<lparr>db = Map.empty, nb_participants = 4\<rparr>,
       collection =
         [ (''agent_0'', StrategyEvaluationPayload (JObject [(''action'', JString ''enter'')])),
           (''agent_1'', StrategyEvaluationPayload (JObject [(''action'', JString ''enter'')])),
           (''agent_2'', StrategyEvaluationPayload (JObject [(''action'', JString ''exit'')])),
           (''agent_3'', StrategyEvaluationPayload (JObject [(''action'', JString ''enter'')])) ] \<rparr>"
  by (simp add: threshold_reached_def largest_nb_votes_def payload_values_def
      consensus_threshold_def)

theorem end_block_commits_again_witness:
  "threshold_reached tx_hash
     \<lparr> period_state = \<lparr>db = Map.empty, nb_participants = 4\<rparr>,
       collection =
         [ (''agent_0'', TransactionHashPayload ''{\"tx_hash\":\"0xabc\",\"tx_data\":\"0x01\"}''),
           (''agent_1'', TransactionHashPayload ''{\"tx_hash\":\"0xabc\",\"tx_data\":\"0x01\"}''),
           (''agent_2'', TransactionHashPayload ''{\"tx_hash\":\"0xabc\",\"tx_data\":\"0x01\"}''),
           (''agent_3'', TransactionHashPayload ''{\"tx_hash\":\"0xabc\",\"tx_data\":\"0x01\"}'') ] \<rparr>
   \<and> TransactionHashBaseRound_end_block json_loads
       \<lparr> period_state = \<lparr>db = Map.empty, nb_participants = 4\<rparr>,
         collection =
           [ (''agent_0'', TransactionHashPayload ''{\"tx_hash\":\"0xabc\",\"tx_data\":\"0x01\"}''),
             (''agent_1'', TransactionHashPayload ''{\"tx_hash\":\"0xabc\",\"tx_data\":\"0x01\"}''),
             (''agent_2'', TransactionHashPayload ''{\"tx_hash\":\"0xabc\",\"tx_data\":\"0x01\"}''),
             (''agent_3'', TransactionHashPayload ''{\"tx_hash\":\"0xabc\",\"tx_data\":\"0x01\"}'') ] \<rparr>
     = Inr (Some
         (\<lparr> db = [ ''participant_to_tx_hash'' \<mapsto> TxHashCollection
                     [ (''agent_0'', TransactionHashPayload ''{\"tx_hash\":\"0xabc\",\"tx_data\":\"0x01\"}''),
                       (''agent_1'', TransactionHashPayload ''{\"tx_hash\":\"0xabc\",\"tx_data\":\"0x01\"}''),
                       (''agent_2'', TransactionHashPayload ''{\"tx_hash\":\"0xabc\",\"tx_data\":\"0x01\"}''),
                       (''agent_3'', TransactionHashPayload ''{\"tx_hash\":\"0xabc\",\"tx_data\":\"0x01\"}'') ],
                   ''most_voted_tx_hash'' \<mapsto> Value (JString ''0xabc''),
                   ''most_voted_tx_data'' \<mapsto> Value (JString ''0x01'') ],
            nb_participants = 4 \<rparr>, DONE))
   \<and> TransactionHashBaseRound_end_block json_loads
       \<lparr> period_state =
           \<lparr> db = [ ''participant_to_tx_hash'' \<mapsto> TxHashCollection
                      [ (''agent_0'', TransactionHashPayload ''{\"tx_hash\":\"0xabc\",\"tx_data\":\"0x01\"}''),
                        (''agent_1'', TransactionHashPayload ''{\"tx_hash\":\"0xabc\",\"tx_data\":\"0x01\"}''),
                        (''agent_2'', TransactionHashPayload ''{\"tx_hash\":\"0xabc\",\"tx_data\":\"0x01\"}''),
                        (''agent_3'', TransactionHashPayload ''{\"tx_hash\":\"0xabc\",\"tx_data\":\"0x01\"}'') ],
                    ''most_voted_tx_hash'' \<mapsto> Value (JString ''0xabc''),
                    ''most_voted_tx_data'' \<mapsto> Value (JString ''0x01'') ],
             nb_participants = 4 \<rparr>,
         collection =
           [ (''agent_0'', TransactionHashPayload ''{\"tx_hash\":\"0xabc\",\"tx_data\":\"0x01\"}''),
             (''agent_1'', TransactionHashPayload ''{\"tx_hash\":\"0xabc\",\"tx_data\":\"0x01\"}''),
             (''agent_2'', TransactionHashPayload ''{\"tx_hash\":\"0xabc\",\"tx_data\":\"0x01\"}''),
             (''agent_3'', TransactionHashPayload ''{\"tx_hash\":\"0xabc\",\"tx_data\":\"0x01\"}'') ] \<rparr>
     = Inr (Some
         (\<lparr> db = [ ''participant_to_tx_hash'' \<mapsto> TxHashCollection
                     [ (''agent_0'', TransactionHashPayload ''{\"tx_hash\":\"0xabc\",\"tx_data\":\"0x01\"}''),
                       (''agent_1'', TransactionHashPayload ''{\"tx_hash\":\"0xabc\",\"tx_data\":\"0x01\"}''),
                       (''agent_2'', TransactionHashPayload ''{\"tx_hash\":\"0xabc\",\"tx_data\":\"0x01\"}''),
                       (''agent_3'', TransactionHashPayload ''{\"tx_hash\":\"0xabc\",\"tx_data\":\"0x01\"}'') ],
                   ''most_voted_tx_hash'' \<mapsto> Value (JString ''0xabc''),
                   ''most_voted_tx_data'' \<mapsto> Value (JString ''0x01'') ],
            nb_participants = 4 \<rparr>, DONE))
   \<and> threshold_reached strategy
       \<lparr> period_state = \<lparr>db = Map.empty, nb_participants = 4\<rparr>,
         collection =
           [ (''agent_0'', StrategyEvaluationPayload (JObject [(''action'', JString ''enter'')])),
             (''agent_1'', StrategyEvaluationPayload (JObject [(''action'', JString ''enter'')])),
             (''agent_2'', StrategyEvaluationPayload (JObject [(''action'', JString ''exit'')])),
             (''agent_3'', StrategyEvaluationPayload (JObject [(''action'', JString ''enter'')])) ] \<rparr>
   \<and> StrategyEvaluationRound_end_block
       \<lparr> period_state = \<lparr>db = Map.empty, nb_participants = 4\<rparr>,
         collection =
           [ (''agent_0'', StrategyEvaluationPayload (JObject [(''action'', JString ''enter'')])),
             (''agent_1'', StrategyEvaluationPayload (JObject [(''action'', JString ''enter'')])),
             (''agent_2'', StrategyEvaluationPayload (JObject [(''action'', JString ''exit'')])),
             (''agent_3'', StrategyEvaluationPayload (JObject [(''action'', JString ''enter'')])) ] \<rparr>
     = Inr (Some
         (\<lparr> db = [ ''participant_to_strategy'' \<mapsto> StrategyCollection
                     [ (''agent_0'', StrategyEvaluationPayload (JObject [(''action'', JString ''enter'')])),
                       (''agent_1'', StrategyEvaluationPayload (JObject [(''action'', JString ''enter'')])),
                       (''agent_2'', StrategyEvaluationPayload (JObject [(''action'', JString ''exit'')])),
                       (''agent_3'', StrategyEvaluationPayload (JObject [(''action'', JString ''enter'')])) ],
                   ''most_voted_strategy'' \<mapsto> Value (JObject [(''action'', JString ''enter'')]) ],
            nb_participants = 4 \<rparr>, DONE_ENTER))
   \<and> StrategyEvaluationRound_end_block
       \<lparr> period_state =
           \<lparr> db = [ ''participant_to_strategy'' \<mapsto> StrategyCollection
                      [ (''agent_0'', StrategyEvaluationPayload (JObject [(''action'', JString ''enter'')])),
                        (''agent_1'', StrategyEvaluationPayload (JObject [(''action'', JString ''enter'')])),
                        (''agent_2'', StrategyEvaluationPayload (JObject [(''action'', JString ''exit'')])),
                        (''agent_3'', StrategyEvaluationPayload (JObject [(''action'', JString ''enter'')])) ],
                    ''most_voted_strategy'' \<mapsto> Value (JObject [(''action'', JString ''enter'')]) ],
             nb_participants = 4 \<rparr>,
         collection =
           [ (''agent_0'', StrategyEvaluationPayload (JObject [(''action'', JString ''enter'')])),
             (''agent_1'', StrategyEvaluationPayload (JObject [(''action'', JString ''enter'')])),
             (''agent_2'', StrategyEvaluationPayload (JObject [(''action'', JString ''exit'')])),
             (''agent_3'', StrategyEvaluationPayload (JObject [(''action'', JString ''enter'')])) ] \<rparr>
     = Inr (Some
         (\<lparr> db = [ ''participant_to_strategy'' \<mapsto> StrategyCollection
                     [ (''agent_0'', StrategyEvaluationPayload (JObject [(''action'', JString ''enter'')])),
                       (''agent_1'', StrategyEvaluationPayload (JObject [(''action'', JString ''enter'')])),
                       (''agent_2'', StrategyEvaluationPayload (JObject [(''action'', JString ''exit'')])),
                       (''agent_3'', StrategyEvaluationPayload (JObject [(''action'', JString ''enter'')])) ],
                   ''most_voted_strategy'' \<mapsto> Value (JObject [(''action'', JString ''enter'')]) ],
            nb_participants = 4 \<rparr>, DONE_ENTER))
   \<and> StrategyEvaluationRound_end_block
       \<lparr> period_state =
           \<lparr> db = [ ''participant_to_strategy'' \<mapsto> StrategyCollection
                      [ (''agent_0'', StrategyEvaluationPayload (JObject [(''action'', JString ''enter'')])),
                        (''agent_1'', StrategyEvaluationPayload (JObject [(''action'', JString ''enter'')])),
                        (''agent_2'', StrategyEvaluationPayload (JObject [(''action'', JString ''exit'')])),
                        (''agent_3'', StrategyEvaluationPayload (JObject [(''action'', JString ''enter'')])) ],
                    ''most_voted_strategy'' \<mapsto> Value (JObject [(''action'', JString ''enter'')]) ],
             nb_participants = 4 \<rparr>,
         collection =
           [ (''agent_0'', StrategyEvaluationPayload (JObject [(''action'', JString ''enter'')])),
             (''agent_1'', StrategyEvaluationPayload (JObject [(''action'', JString ''enter'')])),
             (''agent_2'', StrategyEvaluationPayload (JObject [(''action'', JString ''exit'')])),
             (''agent_3'', StrategyEvaluationPayload (JObject [(''action'', JString ''enter'')])) ] \<rparr>
     \<noteq> Inr None"
proof -
  let ?tc = "[ (''agent_0'', TransactionHashPayload ''{\"tx_hash\":\"0xabc\",\"tx_data\":\"0x01\"}''),
               (''agent_1'', TransactionHashPayload ''{\"tx_hash\":\"0xabc\",\"tx_data\":\"0x01\"}''),
               (''agent_2'', TransactionHashPayload ''{\"tx_hash\":\"0xabc\",\"tx_data\":\"0x01\"}''),
               (''agent_3'', TransactionHashPayload ''{\"tx_hash\":\"0xabc\",\"tx_data\":\"0x01\"}'') ]"
  let ?t = "\<lparr> period_state = \<lparr>db = Map.empty, nb_participants = 4\<rparr>, collection = ?tc \<rparr>"
  let ?ts = "\<lparr> db = [ ''participant_to_tx_hash'' \<mapsto> TxHashCollection ?tc,
                       ''most_voted_tx_hash'' \<mapsto> Value (JString ''0xabc''),
                       ''most_voted_tx_data'' \<mapsto> Value (JString ''0x01'') ],
                nb_participants = 4 \<rparr>"
  let ?sc = "[ (''agent_0'', StrategyEvaluationPayload (JObject [(''action'', JString ''enter'')])),
               (''agent_1'', StrategyEvaluationPayload (JObject [(''action'', JString ''enter'')])),
               (''agent_2'', StrategyEvaluationPayload (JObject [(''action'', JString ''exit'')])),
               (''agent_3'', StrategyEvaluationPayload (JObject [(''action'', JString ''enter'')])) ]"
  let ?s = "\<lparr> period_state = \<lparr>db = Map.empty, nb_participants = 4\<rparr>, collection = ?sc \<rparr>"
  let ?ss = "\<lparr> db = [ ''participant_to_strategy'' \<mapsto> StrategyCollection ?sc,
                       ''most_voted_strategy'' \<mapsto> Value (JObject [(''action'', JString ''enter'')]) ],
                nb_participants = 4 \<rparr>"
  have t_reached: "threshold_reached tx_hash ?t"
    by (rule example_tx_round_reached)
  have t_ret: "TransactionHashBaseRound_end_block json_loads ?t = Inr (Some (?ts, DONE))"
    by (rule example_tx_round_commits)
  have s_reached: "threshold_reached strategy ?s"
    by (rule example_strategy_round_reached)
  have s_ret: "StrategyEvaluationRound_end_block ?s = Inr (Some (?ss, DONE_ENTER))"
    by (rule example_strategy_round_commits)
  note again = end_block_commits_again
    [where r = ?t and loads = json_loads and state = ?ts and event = DONE
       and ?r2.0 = "?t\<lparr>period_state := ?ts\<rparr>"
       and r' = ?s and state' = ?ss and event' = DONE_ENTER
       and r2' = "?s\<lparr>period_state := ?ss\<rparr>"]
  from again t_reached t_ret
  have "TransactionHashBaseRound_end_block json_loads (?t\<lparr>period_state := ?ts\<rparr>)
          = Inr (Some (?ts, DONE))"
    by blast
  then have t_again: "TransactionHashBaseRound_end_block json_loads
          \<lparr> period_state = ?ts, collection = ?tc \<rparr> = Inr (Some (?ts, DONE))"
    by simp
  from again s_reached s_ret
  have "StrategyEvaluationRound_end_block (?s\<lparr>period_state := ?ss\<rparr>)
          = Inr (Some (?ss, DONE_ENTER))"
    by blast
  then have s_again: "StrategyEvaluationRound_end_block
          \<lparr> period_state = ?ss, collection = ?sc \<rparr> = Inr (Some (?ss, DONE_ENTER))"
    by simp
  then have s_some: "StrategyEvaluationRound_end_block
          \<lparr> period_state = ?ss, collection = ?sc \<rparr> \<noteq> Inr None"
    by simp
  from t_reached t_ret t_again s_reached s_ret s_again s_some show ?thesis
    by blast
qed

text \<open>
  C4, as stated, fails: on a round whose commit has fired, a second call to end_block
  does not return None. In the strategy round with three votes for enter out of four
  participants, and in the transaction-hash round with four equal votes, end_block
  returns the commit decision, and on the same round, as on the round holding the
  committed period state, it returns that decision again.
\<close>

theorem end_block_fires_again:
  "StrategyEvaluationRound_end_block
     \<lparr> period_state = \<lparr>db = Map.empty, nb_participants = 4\<rparr>,
       collection =
         [ (''agent_0'', StrategyEvaluationPayload (JObject [(''action'', JString ''enter'')])),
           (''agent_1'', StrategyEvaluationPayload (JObject [(''action'', JString ''enter'')])),
           (''agent_2'', StrategyEvaluationPayload (JObject [(''action'', JString ''exit'')])),
           (''agent_3'', StrategyEvaluationPayload (JObject [(''action'', JString ''enter'')])) ] \<rparr>
   = Inr (Some
       (\<lparr> db = [ ''participant_to_strategy'' \<mapsto> StrategyCollection
                   [ (''agent_0'', StrategyEvaluationPayload (JObject [(''action'', JString ''enter'')])),
                     (''agent_1'', StrategyEvaluationPayload (JObject [(''action'', JString ''enter'')])),
                     (''agent_2'', StrategyEvaluationPayload (JObject [(''action'', JString ''exit'')])),
                     (''agent_3'', StrategyEvaluationPayload (JObject [(''action'', JString ''enter'')])) ],
                 ''most_voted_strategy'' \<mapsto> Value (JObject [(''action'', JString ''enter'')]) ],
          nb_participants = 4 \<rparr>, DONE_ENTER))
   \<and> StrategyEvaluationRound_end_block
       \<lparr> period_state = \<lparr>db = Map.empty, nb_participants = 4\<rparr>,
         collection =
           [ (''agent_0'', StrategyEvaluationPayload (JObject [(''action'', JString ''enter'')])),
             (''agent_1'', StrategyEvaluationPayload (JObject [(''action'', JString ''enter'')])),
             (''agent_2'', StrategyEvaluationPayload (JObject [(''action'', JString ''exit'')])),
             (''agent_3'', StrategyEvaluationPayload (JObject [(''action'', JString ''enter'')])) ] \<rparr>
     \<noteq> Inr None
   \<and> StrategyEvaluationRound_end_block
       \<lparr> period_state =
           \<lparr> db = [ ''participant_to_strategy'' \<mapsto> StrategyCollection
                      [ (''agent_0'', StrategyEvaluationPayload (JObject [(''action'', JString ''enter'')])),
                        (''agent_1'', StrategyEvaluationPayload (JObject [(''action'', JString ''enter'')])),
                        (''agent_2'', StrategyEvaluationPayload (JObject [(''action'', JString ''exit'')])),
                        (''agent_3'', StrategyEvaluationPayload (JObject [(''action'', JString ''enter'')])) ],
                    ''most_voted_strategy'' \<mapsto> Value (JObject [(''action'', JString ''enter'')]) ],
             nb_participants = 4 \<rparr>,
         collection =
           [ (''agent_0'', StrategyEvaluationPayload (JObject [(''action'', JString ''enter'')])),
             (''agent_1'', StrategyEvaluationPayload (JObject [(''action'', JString ''enter'')])),
             (''agent_2'', StrategyEvaluationPayload (JObject [(''action'', JString ''exit'')])),
             (''agent_3'', StrategyEvaluationPayload (JObject [(''action'', JString ''enter'')])) ] \<rparr>
     = Inr (Some
         (\<lparr> db = [ ''participant_to_strategy'' \<mapsto> StrategyCollection
                     [ (''agent_0'', StrategyEvaluationPayload (JObject [(''action'', JString ''enter'')])),
                       (''agent_1'', StrategyEvaluationPayload (JObject [(''action'', JString ''enter'')])),
                       (''agent_2'', StrategyEvaluationPayload (JObject [(''action'', JString ''exit'')])),
                       (''agent_3'', StrategyEvaluationPayload (JObject [(''action'', JString ''enter'')])) ],
                   ''most_voted_strategy'' \<mapsto> Value (JObject [(''action'', JString ''enter'')]) ],
            nb_participants = 4 \<rparr>, DONE_ENTER))
   \<and> TransactionHashBaseRound_end_block json_loads
       \<lparr> period_state = \<lparr>db = Map.empty, nb_participants = 4\<rparr>,
         collection =
           [ (''agent_0'', TransactionHashPayload ''{\"tx_hash\":\"0xabc\",\"tx_data\":\"0x01\"}''),
             (''agent_1'', TransactionHashPayload ''{\"tx_hash\":\"0xabc\",\"tx_data\":\"0x01\"}''),
             (''agent_2'', TransactionHashPayload ''{\"tx_hash\":\"0xabc\",\"tx_data\":\"0x01\"}''),
             (''agent_3'', TransactionHashPayload ''{\"tx_hash\":\"0xabc\",\"tx_data\":\"0x01\"}'') ] \<rparr>
     = Inr (Some
         (\<lparr> db = [ ''participant_to_tx_hash'' \<mapsto> TxHashCollection
                     [ (''agent_0'', TransactionHashPayload ''{\"tx_hash\":\"0xabc\",\"tx_data\":\"0x01\"}''),
                       (''agent_1'', TransactionHashPayload ''{\"tx_hash\":\"0xabc\",\"tx_data\":\"0x01\"}''),
                       (''agent_2'', TransactionHashPayload ''{\"tx_hash\":\"0xabc\",\"tx_data\":\"0x01\"}''),
                       (''agent_3'', TransactionHashPayload ''{\"tx_hash\":\"0xabc\",\"tx_data\":\"0x01\"}'') ],
                   ''most_voted_tx_hash'' \<mapsto> Value (JString ''0xabc''),
                   ''most_voted_tx_data'' \<mapsto> Value (JString ''0x01'') ],
            nb_participants = 4 \<rparr>, DONE))
   \<and> TransactionHashBaseRound_end_block json_loads
       \<lparr> period_state = \<lparr>db = Map.empty, nb_participants = 4\<rparr>,
         collection =
           [ (''agent_0'', TransactionHashPayload ''{\"tx_hash\":\"0xabc\",\"tx_data\":\"0x01\"}''),
             (''agent_1'', TransactionHashPayload ''{\"tx_hash\":\"0xabc\",\"tx_data\":\"0x01\"}''),
             (''agent_2'', TransactionHashPayload ''{\"tx_hash\":\"0xabc\",\"tx_data\":\"0x01\"}''),
             (''agent_3'', TransactionHashPayload ''{\"tx_hash\":\"0xabc\",\"tx_data\":\"0x01\"}'') ] \<rparr>
     \<noteq> Inr None
   \<and> TransactionHashBaseRound_end_block json_loads
       \<lparr> period_state =
           \<lparr> db = [ ''participant_to_tx_hash'' \<mapsto> TxHashCollection
                      [ (''agent_0'', TransactionHashPayload ''{\"tx_hash\":\"0xabc\",\"tx_data\":\"0x01\"}''),
                        (''agent_1'', TransactionHashPayload ''{\"tx_hash\":\"0xabc\",\"tx_data\":\"0x01\"}''),
                        (''agent_2'', TransactionHashPayload ''{\"tx_hash\":\"0xabc\",\"tx_data\":\"0x01\"}''),
                        (''agent_3'', TransactionHashPayload ''{\"tx_hash\":\"0xabc\",\"tx_data\":\"0x01\"}'') ],
                    ''most_voted_tx_hash'' \<mapsto> Value (JString ''0xabc''),
                    ''most_voted_tx_data'' \<mapsto> Value (JString ''0x01'') ],
             nb_participants = 4 \<rparr>,
         collection =
           [ (''agent_0'', TransactionHashPayload ''{\"tx_hash\":\"0xabc\",\"tx_data\":\"0x01\"}''),
             (''agent_1'', TransactionHashPayload ''{\"tx_hash\":\"0xabc\",\"tx_data\":\"0x01\"}''),
             (''agent_2'', TransactionHashPayload ''{\"tx_hash\":\"0xabc\",\"tx_data\":\"0x01\"}''),
             (''agent_3'', TransactionHashPayload ''{\"tx_hash\":\"0xabc\",\"tx_data\":\"0x01\"}'') ] \<rparr>
     = Inr (Some
         (\<lparr> db = [ ''participant_to_tx_hash'' \<mapsto> TxHashCollection
                     [ (''agent_0'', TransactionHashPayload ''{\"tx_hash\":\"0xabc\",\"tx_data\":\"0x01\"}''),
                       (''agent_1'', TransactionHashPayload ''{\"tx_hash\":\"0xabc\",\"tx_data\":\"0x01\"}''),
                       (''agent_2'', TransactionHashPayload ''{\"tx_hash\":\"0xabc\",\"tx_data\":\"0x01\"}''),
                       (''agent_3'', TransactionHashPayload ''{\"tx_hash\":\"0xabc\",\"tx_data\":\"0x01\"}'') ],
                   ''most_voted_tx_hash'' \<mapsto> Value (JString ''0xabc''),
                   ''most_voted_tx_data'' \<mapsto> Value (JString ''0x01'') ],
            nb_participants = 4 \<rparr>, DONE))"
proof -
  let ?tc = "[ (''agent_0'', TransactionHashPayload ''{\"tx_hash\":\"0xabc\",\"tx_data\":\"0x01\"}''),
               (''agent_1'', TransactionHashPayload ''{\"tx_hash\":\"0xabc\",\"tx_data\":\"0x01\"}''),
               (''agent_2'', TransactionHashPayload ''{\"tx_hash\":\"0xabc\",\"tx_data\":\"0x01\"}''),
               (''agent_3'', TransactionHashPayload ''{\"tx_hash\":\"0xabc\",\"tx_data\":\"0x01\"}'') ]"
  let ?t = "\<lparr> period_state = \<lparr>db = Map.empty, nb_participants = 4\<rparr>, collection = ?tc \<rparr>"
  let ?ts = "\<lparr> db = [ ''participant_to_tx_hash'' \<mapsto> TxHashCollection ?tc,
                       ''most_voted_tx_hash'' \<mapsto> Value (JString ''0xabc''),
                       ''most_voted_tx_data'' \<mapsto> Value (JString ''0x01'') ],
                nb_participants = 4 \<rparr>"
  let ?sc = "[ (''agent_0'', StrategyEvaluationPayload (JObject [(''action'', JString ''enter'')])),
               (''agent_1'', StrategyEvaluationPayload (JObject [(''action'', JString ''enter'')])),
               (''agent_2'', StrategyEvaluationPayload (JObject [(''action'', JString ''exit'')])),
               (''agent_3'', StrategyEvaluationPayload (JObject [(''action'', JString ''enter'')])) ]"
  let ?s = "\<lparr> period_state = \<lparr>db = Map.empty, nb_participants = 4\<rparr>, collection = ?sc \<rparr>"
  let ?ss = "\<lparr> db = [ ''participant_to_strategy'' \<mapsto> StrategyCollection ?sc,
                       ''most_voted_strategy'' \<mapsto> Value (JObject [(''action'', JString ''enter'')]) ],
                nb_participants = 4 \<rparr>"
  have s_first: "StrategyEvaluationRound_end_block ?s = Inr (Some (?ss, DONE_ENTER))"
    by (rule example_strategy_round_commits)
  then have s_same: "StrategyEvaluationRound_end_block ?s \<noteq> Inr None"
    by simp
  have "StrategyEvaluationRound_end_block (?s\<lparr>period_state := ?ss\<rparr>)
          = Inr (Some (?ss, DONE_ENTER))"
    using example_strategy_round_reached s_first by (rule strategy_round_commits_again)
  then have s_committed: "StrategyEvaluationRound_end_block
          \<lparr> period_state = ?ss, collection = ?sc \<rparr> = Inr (Some (?ss, DONE_ENTER))"
    by simp
  have t_first: "TransactionHashBaseRound_end_block json_loads ?t = Inr (Some (?ts, DONE))"
    by (rule example_tx_round_commits)
  then have t_same: "TransactionHashBaseRound_end_block json_loads ?t \<noteq> Inr None"
    by simp
  have "TransactionHashBaseRound_end_block json_loads (?t\<lparr>period_state := ?ts\<rparr>)
          = Inr (Some (?ts, DONE))"
    using example_tx_round_reached t_first by (rule tx_round_commits_again)
  then have t_committed: "TransactionHashBaseRound_end_block json_loads
          \<lparr> period_state = ?ts, collection = ?tc \<rparr> = Inr (Some (?ts, DONE))"
    by simp
  from s_first s_same s_committed t_first t_same t_committed show ?thesis
    by blast
qed

end
